theory Spec2Isabelle
  imports Complex_Main "HOL-Library.AList"
begin

section \<open>Values, effects and state of the shared resource manager\<close>

text \<open>
  The dictionaries of \<^verbatim>\<open>resource_manager.py\<close> hold dynamically typed values. Only the
  shapes that reach the adapters are modelled: \<^verbatim>\<open>None\<close>, integers and floats. A float
  saved in a dictionary is modelled by the real number it denotes.
\<close>

datatype pyval = PNone | PInt int | PFloat real

text \<open>Python truthiness, as used by \<^verbatim>\<open>if cpu_freq:\<close>.\<close>

fun truthy :: "pyval \<Rightarrow> bool" where
  "truthy PNone = False"
| "truthy (PInt n) = (n \<noteq> 0)"
| "truthy (PFloat r) = (r \<noteq> 0)"

text \<open>
  The GPU usage targets come from the optimizer's model, so any float can occur in them:
  a finite number (each taken as the real number it denotes, rounding left aside), an
  infinity or NaN. Addition and comparison are those of IEEE floats: NaN is contagious and
  every comparison with NaN is false.
\<close>

datatype pyfloat = Finite real | PosInf | NegInf | NaN

fun py_add :: "pyfloat \<Rightarrow> pyfloat \<Rightarrow> pyfloat" where
  "py_add (Finite a) (Finite b) = Finite (a + b)"
| "py_add NaN y = NaN"
| "py_add x NaN = NaN"
| "py_add PosInf NegInf = NaN"
| "py_add NegInf PosInf = NaN"
| "py_add PosInf y = PosInf"
| "py_add x PosInf = PosInf"
| "py_add NegInf y = NegInf"
| "py_add x NegInf = NegInf"

fun py_less :: "pyfloat \<Rightarrow> pyfloat \<Rightarrow> bool" where
  "py_less NaN y = False"
| "py_less x NaN = False"
| "py_less (Finite a) (Finite b) = (a < b)"
| "py_less NegInf NegInf = False"
| "py_less NegInf y = True"
| "py_less x NegInf = False"
| "py_less PosInf y = False"
| "py_less x PosInf = True"

text \<open>
  Python's \<^verbatim>\<open>max(a, b)\<close> keeps \<open>a\<close> unless \<^verbatim>\<open>b > a\<close>, and \<^verbatim>\<open>min(a, b)\<close> keeps \<open>a\<close>
  unless \<^verbatim>\<open>b < a\<close>.
\<close>

definition py_max :: "pyfloat \<Rightarrow> pyfloat \<Rightarrow> pyfloat" where
  "py_max a b = (if py_less a b then b else a)"

definition py_min :: "pyfloat \<Rightarrow> pyfloat \<Rightarrow> pyfloat" where
  "py_min a b = (if py_less b a then b else a)"

datatype exn =
  TypeError | KeyError | ZeroDivisionError | NVMLError | CalledProcessError | FileNotFoundError |
  RuntimeError

datatype level = Debug | Info | Warning | Error

text \<open>
  Everything the code does to the outside world is recorded, in order, in a trace: a log
  line (its level, its message with the placeholders of the f-string left in, and the
  numbers interpolated into it), a \<^verbatim>\<open>taskset -cp cores pid\<close> run (the cores as the list
  that the source joins with commas), the calls into the device SDK, an
  \<^verbatim>\<open>ionice -c class -p pid\<close> run and the node-level GPU-usage setter.
\<close>

datatype event =
    Log level string "pyval list"
  | Taskset "int list" int
  | NvmlInit
  | NvmlDeviceGetHandleByIndex nat
  | NvmlDeviceSetPowerManagementLimit nat pyval
  | NvmlShutdown
  | Ionice pyval int
  | SetGpuUsage int "pyfloat list"

text \<open>
  The outcome of each external call is an input of the model: \<open>cpu_count\<close> is what
  \<^verbatim>\<open>psutil.cpu_count(logical=True)\<close> returns (\<^verbatim>\<open>None\<close> when undetermined), each flag
  says whether the call of that name returns or raises, \<open>ionice_error\<close> is the exception
  that running \<^verbatim>\<open>ionice\<close> raises, if any.
\<close>

record env =
  cpu_count :: "int option"
  taskset_ok :: bool
  nvml_init_ok :: bool
  nvml_handle_ok :: bool
  nvml_set_ok :: bool
  nvml_shutdown_ok :: bool
  ionice_error :: "exn option"
  set_gpu_usage_ok :: bool

text \<open>
  \<^verbatim>\<open>self.config\<close>, as far as the adapters read it: the section
  \<^verbatim>\<open>optimization_parameters\<close> (absent: \<^verbatim>\<open>KeyError\<close>) with its numeric entries.
\<close>

record config =
  optimization_parameters :: "(string \<times> pyfloat) list option"

text \<open>
  \<open>original_resource_limits\<close> is the dictionary of that name, from pid to the dictionary
  of saved values (an association list in insertion order; it is falsy exactly when
  empty); \<open>gpu_power_limit_mw\<close> is the power cap held by device 0.
\<close>

record state =
  original_resource_limits :: "int \<rightharpoonup> (string \<times> pyval) list"
  trace :: "event list"
  gpu_power_limit_mw :: int

definition emit :: "event \<Rightarrow> state \<Rightarrow> state" where
  "emit ev s = s\<lparr>trace := trace s @ [ev]\<rparr>"

definition new_events :: "state \<Rightarrow> state \<Rightarrow> event list" where
  "new_events s s' = drop (length (trace s)) (trace s')"

section \<open>MiningProcess and GPUManager (utils.py)\<close>

text \<open>
  \<open>gm_gpu_initialized\<close> and \<open>gpu_count\<close> are the fields of the \<^verbatim>\<open>GPUManager\<close>
  singleton. A memory query is what \<^verbatim>\<open>nvmlDeviceGetMemoryInfo\<close> answers for the device of
  an index: the pair (total, used) in bytes, or an exception.
\<close>

record gpu_manager =
  gm_gpu_initialized :: bool
  gpu_count :: nat

type_synonym nvml_query = "nat \<Rightarrow> exn + (int \<times> int)"

text \<open>The loop \<^verbatim>\<open>for i in range(self.gpu_count)\<close> with its accumulator, in MB.\<close>

fun sum_memory ::
  "(int \<times> int \<Rightarrow> int) \<Rightarrow> nvml_query \<Rightarrow> nat list \<Rightarrow> real \<Rightarrow> exn + real" where
  "sum_memory field q [] acc = Inr acc"
| "sum_memory field q (i # is) acc =
     (case q i of
        Inl x \<Rightarrow> Inl x
      | Inr mem_info \<Rightarrow> sum_memory field q is (acc + real_of_int (field mem_info) / (1024 ^ 2)))"

text \<open>Only \<^verbatim>\<open>pynvml.NVMLError\<close> is caught by the two getters; anything else propagates.\<close>

definition get_total_gpu_memory :: "gpu_manager \<Rightarrow> nvml_query \<Rightarrow> exn + real" where
  "get_total_gpu_memory gm q =
     (if \<not> gm_gpu_initialized gm then Inr 0
      else case sum_memory fst q [0..<gpu_count gm] 0 of
             Inl NVMLError \<Rightarrow> Inr 0
           | Inl x \<Rightarrow> Inl x
           | Inr total_memory \<Rightarrow> Inr total_memory)"

definition get_used_gpu_memory :: "gpu_manager \<Rightarrow> nvml_query \<Rightarrow> exn + real" where
  "get_used_gpu_memory gm q =
     (if \<not> gm_gpu_initialized gm then Inr 0
      else case sum_memory snd q [0..<gpu_count gm] 0 of
             Inl NVMLError \<Rightarrow> Inr 0
           | Inl x \<Rightarrow> Inl x
           | Inr used_memory \<Rightarrow> Inr used_memory)"

text \<open>
  The fields of \<^verbatim>\<open>MiningProcess\<close>; \<open>proc_pid\<close> and \<open>proc_name\<close> are \<^verbatim>\<open>pid\<close> and
  \<^verbatim>\<open>name\<close>, \<open>prev_bytes_sent\<close> and \<open>prev_bytes_recv\<close> the two underscore-prefixed
  counters, \<open>gpu_initialized\<close> the copy of the manager's flag taken by \<^verbatim>\<open>__init__\<close>.
\<close>

record mining_process =
  proc_pid :: int
  proc_name :: string
  priority :: int
  cpu_usage :: real
  gpu_usage :: real
  memory_usage :: real
  disk_io :: real
  network_io :: real
  mark :: int
  network_interface :: string
  prev_bytes_sent :: "int option"
  prev_bytes_recv :: "int option"
  is_cloaked :: bool
  gpu_initialized :: bool

definition MiningProcess ::
  "gpu_manager \<Rightarrow> int \<Rightarrow> string \<Rightarrow> int \<Rightarrow> string \<Rightarrow> mining_process" where
  "MiningProcess gm pid name prio interface =
     \<lparr>proc_pid = pid, proc_name = name, priority = prio, cpu_usage = 0, gpu_usage = 0,
      memory_usage = 0, disk_io = 0, network_io = 0, mark = pid mod 65535,
      network_interface = interface, prev_bytes_sent = None, prev_bytes_recv = None,
      is_cloaked = False, gpu_initialized = gm_gpu_initialized gm\<rparr>"

text \<open>Python's true division raises on a zero divisor.\<close>

definition py_truediv :: "real \<Rightarrow> real \<Rightarrow> exn + real" where
  "py_truediv a b = (if b = 0 then Inl ZeroDivisionError else Inr (a / b))"

text \<open>
  The \<^verbatim>\<open>try\<close> block of \<^verbatim>\<open>get_gpu_usage\<close>; \<open>qt\<close> and \<open>qu\<close> are the device's answers
  during the first and the second getter call.
\<close>

definition get_gpu_usage_try :: "gpu_manager \<Rightarrow> nvml_query \<Rightarrow> nvml_query \<Rightarrow> exn + real" where
  "get_gpu_usage_try gm qt qu =
     (case get_total_gpu_memory gm qt of
        Inl x \<Rightarrow> Inl x
      | Inr total_gpu_memory \<Rightarrow>
          (case get_used_gpu_memory gm qu of
             Inl x \<Rightarrow> Inl x
           | Inr used_gpu_memory \<Rightarrow>
               if total_gpu_memory = 0 then Inr 0
               else (case py_truediv used_gpu_memory total_gpu_memory of
                       Inl x \<Rightarrow> Inl x
                     | Inr ratio \<Rightarrow> Inr (ratio * 100))))"

text \<open>
  \<^verbatim>\<open>get_gpu_usage\<close>: every exception of the \<^verbatim>\<open>try\<close> block is caught and answered with
  \<open>0.0\<close>, so the \<^verbatim>\<open>retry\<close> decorator around it always returns at its first attempt.
\<close>

definition get_gpu_usage :: "gpu_manager \<Rightarrow> nvml_query \<Rightarrow> nvml_query \<Rightarrow> real" where
  "get_gpu_usage gm qt qu =
     (if \<not> gm_gpu_initialized gm then 0
      else case get_gpu_usage_try gm qt qu of Inl x \<Rightarrow> 0 | Inr gpu_usage_percent \<Rightarrow> gpu_usage_percent)"

definition lower_char :: "char \<Rightarrow> char" where
  "lower_char c =
     (let n = (of_char c :: nat) in if 65 \<le> n \<and> n \<le> 90 then char_of (n + 32) else c)"

definition lower :: "string \<Rightarrow> string" where
  "lower name = map lower_char name"

text \<open>\<^verbatim>\<open>keyword in text\<close> on strings.\<close>

fun contains :: "string \<Rightarrow> string \<Rightarrow> bool" where
  "contains keyword [] = (keyword = [])"
| "contains keyword (c # cs) =
     (take (length keyword) (c # cs) = keyword \<or> contains keyword cs)"

definition gpu_process_keywords :: "string list" where
  "gpu_process_keywords = [''llmsengen'', ''gpu_miner'']"

definition is_gpu_process :: "mining_process \<Rightarrow> bool" where
  "is_gpu_process p =
     list_ex (\<lambda>keyword. contains keyword (lower (proc_name p))) gpu_process_keywords"

text \<open>
  What one run of the \<^verbatim>\<open>psutil\<close> calls of \<^verbatim>\<open>update_resource_usage\<close> gives: the counters,
  \<^verbatim>\<open>NoSuchProcess\<close>, or another exception. All of these calls come before the first
  assignment to the network fields. \<open>net_io\<close> maps an interface to (bytes sent, bytes
  received).
\<close>

record counters =
  cpu_percent :: real
  memory_percent :: real
  read_bytes :: int
  write_bytes :: int
  net_io :: "(string \<times> int \<times> int) list"

datatype os_sample = NoSuchProcess | OtherFailure | Counters counters

definition update_network_io :: "counters \<Rightarrow> mining_process \<Rightarrow> mining_process" where
  "update_network_io c p =
     (case map_of (net_io c) (network_interface p) of
        Some (current_bytes_sent, current_bytes_recv) \<Rightarrow>
          (case (prev_bytes_sent p, prev_bytes_recv p) of
             (Some prev_sent, Some prev_recv) \<Rightarrow>
               (let sent_diff = current_bytes_sent - prev_sent;
                    recv_diff = current_bytes_recv - prev_recv
                in p\<lparr>network_io := real_of_int (sent_diff + recv_diff) / (1024 * 1024)\<rparr>)
           | _ \<Rightarrow> p\<lparr>network_io := 0\<rparr>)
          \<lparr>prev_bytes_sent := Some current_bytes_sent,
           prev_bytes_recv := Some current_bytes_recv\<rparr>
      | None \<Rightarrow> p\<lparr>network_io := 0\<rparr>)"

definition update_resource_usage ::
  "gpu_manager \<Rightarrow> nvml_query \<Rightarrow> nvml_query \<Rightarrow> os_sample \<Rightarrow> mining_process \<Rightarrow> mining_process" where
  "update_resource_usage gm qt qu sample p =
     (case sample of
        Counters c \<Rightarrow>
          (let p1 = p\<lparr>cpu_usage := cpu_percent c, memory_usage := memory_percent c,
                      disk_io := real_of_int (read_bytes c + write_bytes c) / (1024 * 1024)\<rparr>;
               p2 = update_network_io c p1
           in if gpu_initialized p2 \<and> is_gpu_process p2
              then p2\<lparr>gpu_usage := get_gpu_usage gm qt qu\<rparr>
              else p2\<lparr>gpu_usage := 0\<rparr>)
      | _ \<Rightarrow> p\<lparr>cpu_usage := 0, memory_usage := 0, disk_io := 0, network_io := 0,
               gpu_usage := 0\<rparr>)"

text \<open>A run of samples, oldest first, each with the device answers of its moment.\<close>

fun update_all :: "gpu_manager \<Rightarrow> nvml_query \<Rightarrow> os_sample list \<Rightarrow> mining_process \<Rightarrow> mining_process" where
  "update_all gm q [] p = p"
| "update_all gm q (sample # samples) p =
     update_all gm q samples (update_resource_usage gm q q sample p)"

section \<open>assign\_process\_resources and the adapters (resource\_manager.py)\<close>

text \<open>
  \<^verbatim>\<open>desired_threads > cpu_count or desired_threads <= 0\<close> on dynamically typed operands:
  comparing with \<^verbatim>\<open>None\<close> raises \<^verbatim>\<open>TypeError\<close>.
\<close>

fun threads_invalid :: "pyval \<Rightarrow> int option \<Rightarrow> exn + bool" where
  "threads_invalid PNone cnt = Inl TypeError"
| "threads_invalid (PInt n) None = Inl TypeError"
| "threads_invalid (PFloat r) None = Inl TypeError"
| "threads_invalid (PInt n) (Some c) = Inr (n > c \<or> n \<le> 0)"
| "threads_invalid (PFloat r) (Some c) = Inr (r > of_int c \<or> r \<le> 0)"

text \<open>\<^verbatim>\<open>range(desired_threads)\<close>: only an integer is accepted.\<close>

fun py_range :: "pyval \<Rightarrow> exn + int list" where
  "py_range (PInt n) = Inr (map int [0..<nat n])"
| "py_range (PFloat r) = Inl TypeError"
| "py_range PNone = Inl TypeError"

text \<open>The block under \<^verbatim>\<open>if 'cpu_threads' in resources\<close>, with its own \<^verbatim>\<open>try\<close>.\<close>

definition assign_cpu_threads :: "env \<Rightarrow> int \<Rightarrow> pyval \<Rightarrow> state \<Rightarrow> state" where
  "assign_cpu_threads e pid desired_threads s =
     (case threads_invalid desired_threads (cpu_count e) of
        Inl x \<Rightarrow>
          emit (Log Error ''Error adjusting CPU threads using taskset for {process_name} (PID: {pid}): {e}'' [PInt pid]) s
      | Inr True \<Rightarrow>
          emit (Log Warning ''Requested CPU threads ({desired_threads}) invalid. Skipping.'' [desired_threads]) s
      | Inr False \<Rightarrow>
          (case py_range desired_threads of
             Inl x \<Rightarrow>
               emit (Log Error ''Error adjusting CPU threads using taskset for {process_name} (PID: {pid}): {e}'' [PInt pid]) s
           | Inr cores \<Rightarrow>
               (let s1 = emit (Taskset cores pid) s in
                if taskset_ok e
                then emit (Log Info ''Applied {desired_threads} CPU threads limit for process {process_name} (PID: {pid}).'' [desired_threads, PInt pid]) s1
                else emit (Log Error ''Error adjusting CPU threads using taskset for {process_name} (PID: {pid}): {e}'' [PInt pid]) s1)))"

text \<open>
  \<^verbatim>\<open>assign_process_resources(pid, resources, process_name, logger)\<close>: four independent
  blocks, one per key of \<open>resources\<close>; only the first calls an external tool.
\<close>

definition assign_process_resources ::
  "env \<Rightarrow> int \<Rightarrow> (string \<times> pyval) list \<Rightarrow> string \<Rightarrow> state \<Rightarrow> state" where
  "assign_process_resources e pid resources process_name s =
     (let s1 = (case map_of resources ''cpu_threads'' of
                  Some desired_threads \<Rightarrow> assign_cpu_threads e pid desired_threads s
                | None \<Rightarrow> s);
          s2 = (if map_of resources ''memory'' \<noteq> None
                then emit (Log Warning ''Cannot limit RAM for process {process_name} (PID: {pid}) without cgroup_manager. Skipping.'' [PInt pid]) s1
                else s1);
          s3 = (if map_of resources ''cpu_freq'' \<noteq> None
                then emit (Log Warning ''Cannot directly adjust CPU frequency for process {process_name} (PID: {pid}) without using cgroup. Skipping.'' [PInt pid]) s2
                else s2)
      in if map_of resources ''disk_io_limit_mbps'' \<noteq> None
         then emit (Log Warning ''Cannot directly adjust Disk I/O for process {process_name} (PID: {pid}) without using cgroup. Skipping.'' [PInt pid]) s3
         else s3)"

text \<open>
  The adapters of \<^verbatim>\<open>SharedResourceManager\<close>. Each wraps its body in
  \<^verbatim>\<open>try ... except Exception\<close> and logs; where the body cannot raise, the handler is left
  out.
\<close>

definition adjust_cpu_threads :: "env \<Rightarrow> int \<Rightarrow> pyval \<Rightarrow> string \<Rightarrow> state \<Rightarrow> state" where
  "adjust_cpu_threads e pid cpu_threads process_name s =
     emit (Log Info ''Adjusted CPU threads to {cpu_threads} for process {process_name} (PID: {pid}).'' [cpu_threads, PInt pid])
       (assign_process_resources e pid [(''cpu_threads'', cpu_threads)] process_name s)"

definition adjust_ram_allocation :: "env \<Rightarrow> int \<Rightarrow> pyval \<Rightarrow> string \<Rightarrow> state \<Rightarrow> state" where
  "adjust_ram_allocation e pid ram_allocation_mb process_name s =
     emit (Log Info ''Adjusted RAM limit to {ram_allocation_mb}MB for process {process_name} (PID: {pid}).'' [ram_allocation_mb, PInt pid])
       (assign_process_resources e pid [(''memory'', ram_allocation_mb)] process_name s)"

definition adjust_cpu_frequency :: "env \<Rightarrow> int \<Rightarrow> pyval \<Rightarrow> string \<Rightarrow> state \<Rightarrow> state" where
  "adjust_cpu_frequency e pid frequency process_name s =
     emit (Log Info ''Set CPU frequency to {frequency}MHz for process {process_name} (PID: {pid}).'' [frequency, PInt pid])
       (assign_process_resources e pid [(''cpu_freq'', frequency)] process_name s)"

text \<open>
  \<^verbatim>\<open>adjust_gpu_usage\<close>. The comprehension reads the configuration once per element, so an
  empty vector reaches the setter whatever the configuration holds; a configuration with no
  \<^verbatim>\<open>optimization_parameters\<close> raises \<^verbatim>\<open>KeyError\<close> at the first element.
\<close>

definition gpu_power_adjustment_step :: "config \<Rightarrow> exn + pyfloat" where
  "gpu_power_adjustment_step cfg =
     (case optimization_parameters cfg of
        None \<Rightarrow> Inl KeyError
      | Some params \<Rightarrow>
          Inr (case map_of params ''gpu_power_adjustment_step'' of
                 Some v \<Rightarrow> v
               | None \<Rightarrow> Finite 10))"

fun new_gpu_usage_percent :: "config \<Rightarrow> pyfloat list \<Rightarrow> exn + pyfloat list" where
  "new_gpu_usage_percent cfg [] = Inr []"
| "new_gpu_usage_percent cfg (gpu # rest) =
     (case gpu_power_adjustment_step cfg of
        Inl x \<Rightarrow> Inl x
      | Inr step \<Rightarrow>
          (case new_gpu_usage_percent cfg rest of
             Inl x \<Rightarrow> Inl x
           | Inr vs \<Rightarrow> Inr (py_min (py_max (py_add gpu step) (Finite 0)) (Finite 100) # vs)))"

definition adjust_gpu_usage ::
  "env \<Rightarrow> config \<Rightarrow> mining_process \<Rightarrow> pyfloat list \<Rightarrow> state \<Rightarrow> state" where
  "adjust_gpu_usage e cfg process gpu_usage_percent s =
     (case new_gpu_usage_percent cfg gpu_usage_percent of
        Inl x \<Rightarrow>
          emit (Log Error ''Error adjusting GPU usage for process {process.name} (PID: {process.pid}): {e}'' [PInt (proc_pid process)]) s
      | Inr vs \<Rightarrow>
          (let s1 = emit (SetGpuUsage (proc_pid process) vs) s in
           if set_gpu_usage_ok e
           then emit (Log Info ''Adjusted GPU usage to {new_gpu_usage_percent} for process {process.name} (PID: {process.pid}).'' [PInt (proc_pid process)]) s1
           else emit (Log Error ''Error adjusting GPU usage for process {process.name} (PID: {process.pid}): {e}'' [PInt (proc_pid process)]) s1))"

text \<open>\<^verbatim>\<open>power_limit * 1000\<close> on a dynamically typed operand.\<close>

fun py_times_1000 :: "pyval \<Rightarrow> exn + pyval" where
  "py_times_1000 (PInt n) = Inr (PInt (n * 1000))"
| "py_times_1000 (PFloat r) = Inr (PFloat (r * 1000))"
| "py_times_1000 PNone = Inl TypeError"

definition gpu_power_error :: "int \<Rightarrow> state \<Rightarrow> state" where
  "gpu_power_error pid s =
     emit (Log Error ''Error adjusting GPU power for process {process_name} (PID: {pid}): {e}'' [PInt pid]) s"

text \<open>
  \<^verbatim>\<open>adjust_gpu_power_limit\<close>: the first component is the value returned to the caller. The
  function has no \<^verbatim>\<open>return\<close> statement, so that value is \<^verbatim>\<open>None\<close> on every path.
  \<^verbatim>\<open>pynvml\<close> hands the limit to the library as a C \<^verbatim>\<open>unsigned int\<close>: only an integer
  is accepted, and the device receives it modulo \<open>2 ^ 32\<close>. The event records the
  argument of the Python call.
\<close>

definition adjust_gpu_power_limit ::
  "env \<Rightarrow> int \<Rightarrow> pyval \<Rightarrow> string \<Rightarrow> state \<Rightarrow> pyval \<times> state" where
  "adjust_gpu_power_limit e pid power_limit process_name s =
     (let s1 = emit NvmlInit s in
      if \<not> nvml_init_ok e then (PNone, gpu_power_error pid s1)
      else
        (let s2 = emit (NvmlDeviceGetHandleByIndex 0) s1 in
         if \<not> nvml_handle_ok e then (PNone, gpu_power_error pid s2)
         else
           (case py_times_1000 power_limit of
              Inl x \<Rightarrow> (PNone, gpu_power_error pid s2)
            | Inr (PInt mw) \<Rightarrow>
                (let s3 = emit (NvmlDeviceSetPowerManagementLimit 0 (PInt mw)) s2 in
                 if \<not> nvml_set_ok e then (PNone, gpu_power_error pid s3)
                 else
                   (let s4 = emit NvmlShutdown (s3\<lparr>gpu_power_limit_mw := mw mod 2 ^ 32\<rparr>) in
                    if \<not> nvml_shutdown_ok e then (PNone, gpu_power_error pid s4)
                    else (PNone, emit (Log Info ''Set GPU power limit to {power_limit}W for process {process_name} (PID: {pid}).'' [power_limit, PInt pid]) s4)))
            | Inr v \<Rightarrow>
                (PNone, gpu_power_error pid (emit (NvmlDeviceSetPowerManagementLimit 0 v) s2)))))"

definition adjust_disk_io_priority :: "env \<Rightarrow> int \<Rightarrow> pyval \<Rightarrow> string \<Rightarrow> state \<Rightarrow> state" where
  "adjust_disk_io_priority e pid ionice_class process_name s =
     (let s1 = emit (Ionice ionice_class pid) s in
      case ionice_error e of
        None \<Rightarrow>
          emit (Log Info ''Set ionice class to {ionice_class} for process {process_name} (PID: {pid}).'' [ionice_class, PInt pid]) s1
      | Some CalledProcessError \<Rightarrow> emit (Log Error ''Error executing ionice: {e}'' []) s1
      | Some x \<Rightarrow>
          emit (Log Error ''Error adjusting Disk I/O priority for process {process_name} (PID: {pid}): {e}'' [PInt pid]) s1)"

text \<open>
  \<^verbatim>\<open>adjust_network_bandwidth\<close> calls \<^verbatim>\<open>apply_network_cloaking\<close>, which calls
  \<^verbatim>\<open>configure_network_interface\<close>, whose body is \<^verbatim>\<open>pass\<close>.
\<close>

definition adjust_network_bandwidth :: "mining_process \<Rightarrow> pyval \<Rightarrow> state \<Rightarrow> state" where
  "adjust_network_bandwidth process bandwidth_limit_mbps s =
     emit (Log Info ''Adjusted network bandwidth limit to {bandwidth_limit_mbps} Mbps for process {process.name} (PID: {process.pid}).'' [bandwidth_limit_mbps, PInt (proc_pid process)]) s"

section \<open>apply\_cloak\_strategy\<close>

text \<open>
  The four \<^verbatim>\<open>get_current_*\<close> readers and \<^verbatim>\<open>execute_adjustments\<close> are methods of
  \<^verbatim>\<open>SharedResourceManager\<close> that the file does not define, and the strategy factory lives
  in another module: all are parameters. A reader answers with the current system value or
  raises; a strategy, applied to a process, answers with its adjustments in the order of
  the dictionary (the empty list also stands for \<^verbatim>\<open>None\<close>) or raises.
\<close>

record readers =
  get_current_cpu_frequency :: "int \<Rightarrow> state \<Rightarrow> exn + pyval"
  get_current_gpu_power_limit :: "int \<Rightarrow> state \<Rightarrow> exn + pyval"
  get_current_network_bandwidth_limit :: "int \<Rightarrow> state \<Rightarrow> exn + pyval"
  get_current_ionice_class :: "int \<Rightarrow> state \<Rightarrow> exn + pyval"

type_synonym strategy = "mining_process \<Rightarrow> exn + (string \<times> pyval) list"

text \<open>
  \<^verbatim>\<open>original = self.get_current_...(pid); self.original_resource_limits[pid][key] = original\<close>:
  the assignment is unconditional.
\<close>

definition save_limit ::
  "(int \<Rightarrow> state \<Rightarrow> exn + pyval) \<Rightarrow> int \<Rightarrow> string \<Rightarrow> state \<Rightarrow> exn + state" where
  "save_limit reader pid key s =
     (case reader pid s of
        Inl x \<Rightarrow> Inl x
      | Inr original \<Rightarrow>
          (case original_resource_limits s pid of
             None \<Rightarrow> Inl KeyError
           | Some saved \<Rightarrow>
               Inr (s\<lparr>original_resource_limits :=
                        (original_resource_limits s)(pid \<mapsto> AList.update key original saved)\<rparr>)))"

text \<open>The loop \<^verbatim>\<open>for key, value in adjustments.items()\<close>.\<close>

fun save_original_limits ::
  "readers \<Rightarrow> int \<Rightarrow> (string \<times> pyval) list \<Rightarrow> state \<Rightarrow> exn option \<times> state" where
  "save_original_limits r pid [] s = (None, s)"
| "save_original_limits r pid ((key, v) # rest) s =
     (if key = ''cpu_freq'' then
        (case save_limit (get_current_cpu_frequency r) pid ''cpu_freq'' s of
           Inl x \<Rightarrow> (Some x, s) | Inr s' \<Rightarrow> save_original_limits r pid rest s')
      else if key = ''gpu_power_limit'' then
        (case save_limit (get_current_gpu_power_limit r) pid ''gpu_power_limit'' s of
           Inl x \<Rightarrow> (Some x, s) | Inr s' \<Rightarrow> save_original_limits r pid rest s')
      else if key = ''network_bandwidth_limit_mbps'' then
        (case save_limit (get_current_network_bandwidth_limit r) pid ''network_bandwidth_limit_mbps'' s of
           Inl x \<Rightarrow> (Some x, s) | Inr s' \<Rightarrow> save_original_limits r pid rest s')
      else if key = ''ionice_class'' then
        (case save_limit (get_current_ionice_class r) pid ''ionice_class'' s of
           Inl x \<Rightarrow> (Some x, s) | Inr s' \<Rightarrow> save_original_limits r pid rest s')
      else save_original_limits r pid rest s)"

text \<open>The inner \<^verbatim>\<open>try\<close> block of \<^verbatim>\<open>apply_cloak_strategy\<close>.\<close>

definition apply_cloak_strategy_try ::
  "readers \<Rightarrow> ((string \<times> pyval) list \<Rightarrow> mining_process \<Rightarrow> state \<Rightarrow> exn option \<times> state) \<Rightarrow>
   strategy \<Rightarrow> mining_process \<Rightarrow> state \<Rightarrow> exn option \<times> state" where
  "apply_cloak_strategy_try r execute_adjustments strategy process s =
     (case strategy process of
        Inl x \<Rightarrow> (Some x, s)
      | Inr adjustments \<Rightarrow>
          if adjustments = [] then
            (None, emit (Log Warning ''No adjustments applied for strategy {strategy_name} for process {process.name} (PID: {process.pid}).'' [PInt (proc_pid process)]) s)
          else
            (let s1 = emit (Log Info ''Applying {strategy_name} adjustments for process {process.name} (PID: {process.pid}): {adjustments}'' [PInt (proc_pid process)]) s;
                 pid = proc_pid process;
                 s2 = (if original_resource_limits s1 pid = None
                       then s1\<lparr>original_resource_limits := (original_resource_limits s1)(pid \<mapsto> [])\<rparr>
                       else s1)
             in case save_original_limits r pid adjustments s2 of
                  (Some x, s3) \<Rightarrow> (Some x, s3)
                | (None, s3) \<Rightarrow> execute_adjustments adjustments process s3))"

definition apply_cloak_strategy ::
  "readers \<Rightarrow> ((string \<times> pyval) list \<Rightarrow> mining_process \<Rightarrow> state \<Rightarrow> exn option \<times> state) \<Rightarrow>
   (string \<Rightarrow> exn + strategy option) \<Rightarrow> string \<Rightarrow> mining_process \<Rightarrow> state \<Rightarrow> exn option \<times> state" where
  "apply_cloak_strategy r execute_adjustments create_strategy strategy_name process s =
     (let s0 = emit (Log Debug ''Creating strategy {strategy_name} for process {process.name} (PID: {process.pid})'' [PInt (proc_pid process)]) s in
      case create_strategy strategy_name of
        Inl x \<Rightarrow> (Some x, emit (Log Error ''Cannot create strategy {strategy_name}: {e}'' []) s0)
      | Inr None \<Rightarrow>
          (Some RuntimeError,
           emit (Log Warning ''Cloaking strategy {strategy_name} was not created successfully for process {process.name} (PID: {process.pid}).'' [PInt (proc_pid process)]) s0)
      | Inr (Some strategy) \<Rightarrow>
          (case apply_cloak_strategy_try r execute_adjustments strategy process s0 of
             (Some x, s') \<Rightarrow>
               (Some x, emit (Log Error ''Error applying cloaking strategy {strategy_name} for process {process.name} (PID: {process.pid}): {e}'' [PInt (proc_pid process)]) s')
           | (None, s') \<Rightarrow> (None, s')))"

section \<open>restore\_resources\<close>

text \<open>
  \<^verbatim>\<open>restore_resources(self, process)\<close> is defined at module level and reaches the adapters
  through \<^verbatim>\<open>self\<close>, so it is modelled over any object with these six methods, each of
  which returns or raises. \<open>SharedResourceManager e\<close> is the object whose methods are the
  adapters above: none of them raises.
\<close>

record methods =
  self_adjust_cpu_frequency :: "int \<Rightarrow> pyval \<Rightarrow> string \<Rightarrow> state \<Rightarrow> exn option \<times> state"
  self_adjust_cpu_threads :: "int \<Rightarrow> pyval \<Rightarrow> string \<Rightarrow> state \<Rightarrow> exn option \<times> state"
  self_adjust_ram_allocation :: "int \<Rightarrow> pyval \<Rightarrow> string \<Rightarrow> state \<Rightarrow> exn option \<times> state"
  self_adjust_gpu_power_limit :: "int \<Rightarrow> pyval \<Rightarrow> string \<Rightarrow> state \<Rightarrow> exn option \<times> state"
  self_adjust_disk_io_priority :: "int \<Rightarrow> pyval \<Rightarrow> string \<Rightarrow> state \<Rightarrow> exn option \<times> state"
  self_adjust_network_bandwidth :: "mining_process \<Rightarrow> pyval \<Rightarrow> state \<Rightarrow> exn option \<times> state"

definition SharedResourceManager :: "env \<Rightarrow> methods" where
  "SharedResourceManager e =
     \<lparr>self_adjust_cpu_frequency = (\<lambda>pid v nm s. (None, adjust_cpu_frequency e pid v nm s)),
      self_adjust_cpu_threads = (\<lambda>pid v nm s. (None, adjust_cpu_threads e pid v nm s)),
      self_adjust_ram_allocation = (\<lambda>pid v nm s. (None, adjust_ram_allocation e pid v nm s)),
      self_adjust_gpu_power_limit = (\<lambda>pid v nm s. (None, snd (adjust_gpu_power_limit e pid v nm s))),
      self_adjust_disk_io_priority = (\<lambda>pid v nm s. (None, adjust_disk_io_priority e pid v nm s)),
      self_adjust_network_bandwidth = (\<lambda>p v s. (None, adjust_network_bandwidth p v s))\<rparr>"

text \<open>Sequencing inside a \<^verbatim>\<open>try\<close> block: a raised exception skips what follows.\<close>

definition and_then ::
  "exn option \<times> state \<Rightarrow> (state \<Rightarrow> exn option \<times> state) \<Rightarrow> exn option \<times> state" where
  "and_then r f = (case r of (None, s) \<Rightarrow> f s | (Some x, s) \<Rightarrow> (Some x, s))"

text \<open>
  One block of the form
  \<^verbatim>\<open>v = original_limits.get(key); if v: self.adjust(pid, v, process_name); self.logger.info(...)\<close>.
\<close>

definition restore_key ::
  "(string \<times> pyval) list \<Rightarrow> string \<Rightarrow> (pyval \<Rightarrow> state \<Rightarrow> exn option \<times> state) \<Rightarrow>
   string \<Rightarrow> int \<Rightarrow> state \<Rightarrow> exn option \<times> state" where
  "restore_key original_limits key adapter msg pid s =
     (case map_of original_limits key of
        None \<Rightarrow> (None, s)
      | Some v \<Rightarrow>
          if truthy v
          then and_then (adapter v s) (\<lambda>s'. (None, emit (Log Info msg [v, PInt pid]) s'))
          else (None, s))"

text \<open>\<^verbatim>\<open>del self.original_resource_limits[pid]\<close> and the closing log line.\<close>

definition delete_limits :: "int \<Rightarrow> state \<Rightarrow> exn option \<times> state" where
  "delete_limits pid s =
     (case original_resource_limits s pid of
        None \<Rightarrow> (Some KeyError, s)
      | Some saved \<Rightarrow>
          (None,
           emit (Log Info ''Restored all resources for process {process_name} (PID: {pid}).'' [PInt pid])
             (s\<lparr>original_resource_limits := (original_resource_limits s)(pid := None)\<rparr>)))"

definition restore_resources :: "methods \<Rightarrow> mining_process \<Rightarrow> state \<Rightarrow> exn option \<times> state" where
  "restore_resources self process s =
     (let pid = proc_pid process; process_name = proc_name process in
      case original_resource_limits s pid of
        None \<Rightarrow>
          (None, emit (Log Warning ''Original resource limits not found for process {process_name} (PID: {pid}).'' [PInt pid]) s)
      | Some original_limits \<Rightarrow>
          if original_limits = [] then
            (None, emit (Log Warning ''Original resource limits not found for process {process_name} (PID: {pid}).'' [PInt pid]) s)
          else
            (case
               and_then (and_then (and_then (and_then (and_then (and_then
                 (restore_key original_limits ''cpu_freq''
                    (\<lambda>v. self_adjust_cpu_frequency self pid v process_name)
                    ''Restored CPU frequency to {cpu_freq}MHz for process {process_name} (PID: {pid}).'' pid s)
                 (restore_key original_limits ''cpu_threads''
                    (\<lambda>v. self_adjust_cpu_threads self pid v process_name)
                    ''Restored CPU threads to {cpu_threads} for process {process_name} (PID: {pid}).'' pid))
                 (restore_key original_limits ''ram_allocation_mb''
                    (\<lambda>v. self_adjust_ram_allocation self pid v process_name)
                    ''Restored RAM limit to {ram_allocation_mb}MB for process {process_name} (PID: {pid}).'' pid))
                 (restore_key original_limits ''gpu_power_limit''
                    (\<lambda>v. self_adjust_gpu_power_limit self pid v process_name)
                    ''Restored GPU power limit to {gpu_power_limit}W for process {process_name} (PID: {pid}).'' pid))
                 (restore_key original_limits ''ionice_class''
                    (\<lambda>v. self_adjust_disk_io_priority self pid v process_name)
                    ''Restored ionice class to {ionice_class} for process {process_name} (PID: {pid}).'' pid))
                 (restore_key original_limits ''network_bandwidth_limit_mbps''
                    (\<lambda>v. self_adjust_network_bandwidth self process v)
                    ''Restored network bandwidth limit to {network_bandwidth_limit_mbps} Mbps for process {process_name} (PID: {pid}).'' pid))
                 (delete_limits pid)
             of
               (Some x, s') \<Rightarrow>
                 (Some x, emit (Log Error ''Error while restoring resources for process {process.name} (PID: {process.pid}): {e}'' [PInt pid]) s')
             | (None, s') \<Rightarrow> (None, s')))"

section \<open>ResourceManager: the singleton\<close>








section \<open>Concrete inputs\<close>

text \<open>A host with four logical cores on which every external call succeeds.\<close>

definition ok_env :: env where
  "ok_env = \<lparr>cpu_count = Some 4, taskset_ok = True, nvml_init_ok = True, nvml_handle_ok = True,
             nvml_set_ok = True, nvml_shutdown_ok = True, ionice_error = None,
             set_gpu_usage_ok = True\<rparr>"

text \<open>Nothing saved, nothing done yet, the device capped at 250 W.\<close>

definition idle_state :: state where
  "idle_state = \<lparr>original_resource_limits = Map.empty, trace = [], gpu_power_limit_mw = 250000\<rparr>"

text \<open>A configuration whose \<^verbatim>\<open>optimization_parameters\<close> sets no step: the default applies.\<close>

definition default_config :: config where
  "default_config = \<lparr>optimization_parameters = Some []\<rparr>"

text \<open>A process registered as \<^verbatim>\<open>MiningProcess(1002, "gpu_miner", 3)\<close> on a host with one GPU.\<close>

definition gpu_miner :: mining_process where
  "gpu_miner = MiningProcess \<lparr>gm_gpu_initialized = True, gpu_count = 1\<rparr> 1002 ''gpu_miner'' 3 ''eth0''"

text \<open>A finite number between 0 and 100.\<close>

fun percent :: "pyfloat \<Rightarrow> bool" where
  "percent (Finite r) = (0 \<le> r \<and> r \<le> 100)"
| "percent PosInf = False"
| "percent NegInf = False"
| "percent NaN = False"

text \<open>The calls to external tools and SDKs among some events: everything but the log lines.\<close>

fun is_log :: "event \<Rightarrow> bool" where
  "is_log (Log l m a) = True"
| "is_log ev = False"

definition external_calls :: "event list \<Rightarrow> event list" where
  "external_calls evs = filter (\<lambda>ev. \<not> is_log ev) evs"

text \<open>The same host, with a device that rejects a new power cap.\<close>

definition set_fails_env :: env where
  "set_fails_env = ok_env\<lparr>nvml_set_ok := False\<rparr>"

text \<open>One GPU of 8 GB, half of it in use; and a device that reports no memory at all.\<close>

definition one_gpu :: gpu_manager where
  "one_gpu = \<lparr>gm_gpu_initialized = True, gpu_count = 1\<rparr>"

definition half_used :: nvml_query where
  "half_used i = Inr (8589934592, 4294967296)"

definition no_memory :: nvml_query where
  "no_memory i = Inr (0, 0)"

text \<open>A CPU worker, and two successive readings of its counters.\<close>

definition cpu_miner :: mining_process where
  "cpu_miner = MiningProcess one_gpu 1001 ''cpu_miner'' 2 ''eth0''"

definition sample1 :: counters where
  "sample1 = \<lparr>cpu_percent = 50, memory_percent = 10, read_bytes = 1048576, write_bytes = 1048576,
              net_io = [(''lo'', 5, 5), (''eth0'', 1048576, 2097152)]\<rparr>"

definition sample2 :: counters where
  "sample2 = \<lparr>cpu_percent = 60, memory_percent = 10, read_bytes = 2097152, write_bytes = 1048576,
              net_io = [(''lo'', 9, 9), (''eth0'', 3145728, 5242880)]\<rparr>"

section \<open>Observing restore\_resources\<close>

text \<open>
  Every invocation of an adapter leaves one event that no other code path emits: the
  closing info line of \<^verbatim>\<open>adjust_cpu_frequency\<close>, \<^verbatim>\<open>adjust_cpu_threads\<close>,
  \<^verbatim>\<open>adjust_ram_allocation\<close> and \<^verbatim>\<open>adjust_network_bandwidth\<close>, the \<^verbatim>\<open>nvmlInit\<close> call of
  \<^verbatim>\<open>adjust_gpu_power_limit\<close>, the \<^verbatim>\<open>ionice\<close> run of \<^verbatim>\<open>adjust_disk_io_priority\<close>.
  \<open>adapter_mark key ev\<close> says that \<open>ev\<close> is that event for the adapter that restores
  \<open>key\<close>.
\<close>

fun adapter_mark :: "string \<Rightarrow> event \<Rightarrow> bool" where
  "adapter_mark key (Log lvl msg args) =
     (lvl = Info \<and>
      (key = ''cpu_freq'' \<and>
         msg = ''Set CPU frequency to {frequency}MHz for process {process_name} (PID: {pid}).'' \<or>
       key = ''cpu_threads'' \<and>
         msg = ''Adjusted CPU threads to {cpu_threads} for process {process_name} (PID: {pid}).'' \<or>
       key = ''ram_allocation_mb'' \<and>
         msg = ''Adjusted RAM limit to {ram_allocation_mb}MB for process {process_name} (PID: {pid}).'' \<or>
       key = ''network_bandwidth_limit_mbps'' \<and>
         msg = ''Adjusted network bandwidth limit to {bandwidth_limit_mbps} Mbps for process {process.name} (PID: {process.pid}).''))"
| "adapter_mark key NvmlInit = (key = ''gpu_power_limit'')"
| "adapter_mark key (Ionice c p) = (key = ''ionice_class'')"
| "adapter_mark key (Taskset cs p) = False"
| "adapter_mark key (NvmlDeviceGetHandleByIndex i) = False"
| "adapter_mark key (NvmlDeviceSetPowerManagementLimit i v) = False"
| "adapter_mark key NvmlShutdown = False"
| "adapter_mark key (SetGpuUsage p vs) = False"

definition adapter_invoked :: "string \<Rightarrow> event list \<Rightarrow> bool" where
  "adapter_invoked key evs = list_ex (adapter_mark key) evs"

text \<open>The keys that \<^verbatim>\<open>restore_resources\<close> looks up, in its order.\<close>

definition restorable_keys :: "string list" where
  "restorable_keys = [''cpu_freq'', ''cpu_threads'', ''ram_allocation_mb'', ''gpu_power_limit'',
                      ''ionice_class'', ''network_bandwidth_limit_mbps'']"

text \<open>\<^verbatim>\<open>v = original_limits.get(key)\<close> followed by \<^verbatim>\<open>if v:\<close>.\<close>

definition saved_truthy :: "(string \<times> pyval) list \<Rightarrow> string \<Rightarrow> bool" where
  "saved_truthy original_limits key =
     (case map_of original_limits key of Some v \<Rightarrow> truthy v | None \<Rightarrow> False)"

text \<open>
  \<open>acts_for key f\<close>: the state transformer \<open>f\<close> leaves \<open>original_resource_limits\<close>
  alone and adds events that carry the mark of \<open>key\<close> and of no other key.
  \<open>restored_so_far saved s K r\<close>: \<open>r\<close> is a normal return reached from \<open>s\<close> by
  invoking the adapters of exactly the keys of \<open>K\<close> whose saved value is truthy.
\<close>

definition acts_for :: "string \<Rightarrow> (state \<Rightarrow> state) \<Rightarrow> bool" where
  "acts_for key f =
     (\<forall>s. original_resource_limits (f s) = original_resource_limits s \<and>
          (\<exists>es. trace (f s) = trace s @ es \<and> (\<forall>k. adapter_invoked k es = (k = key))))"

definition restored_so_far ::
  "(string \<times> pyval) list \<Rightarrow> state \<Rightarrow> string set \<Rightarrow> exn option \<times> state \<Rightarrow> bool" where
  "restored_so_far saved s K r =
     (fst r = None \<and> original_resource_limits (snd r) = original_resource_limits s \<and>
      (\<exists>es. trace (snd r) = trace s @ es \<and>
            (\<forall>k. adapter_invoked k es = (k \<in> K \<and> saved_truthy saved k))))"

text \<open>
  \<open>keeps_limits self\<close>: no method of \<open>self\<close> touches \<open>original_resource_limits\<close>.
\<close>

definition keeps_limits :: "methods \<Rightarrow> bool" where
  "keeps_limits self =
     ((\<forall>pid v nm s. original_resource_limits (snd (self_adjust_cpu_frequency self pid v nm s)) = original_resource_limits s) \<and>
      (\<forall>pid v nm s. original_resource_limits (snd (self_adjust_cpu_threads self pid v nm s)) = original_resource_limits s) \<and>
      (\<forall>pid v nm s. original_resource_limits (snd (self_adjust_ram_allocation self pid v nm s)) = original_resource_limits s) \<and>
      (\<forall>pid v nm s. original_resource_limits (snd (self_adjust_gpu_power_limit self pid v nm s)) = original_resource_limits s) \<and>
      (\<forall>pid v nm s. original_resource_limits (snd (self_adjust_disk_io_priority self pid v nm s)) = original_resource_limits s) \<and>
      (\<forall>p v s. original_resource_limits (snd (self_adjust_network_bandwidth self p v s)) = original_resource_limits s))"

text \<open>A process whose GPU power cap was lowered from 250 W to 200 W, with both originals saved.\<close>

definition restore_process :: mining_process where
  "restore_process = MiningProcess one_gpu 2121 ''restore_process'' 1 ''eth0''"

definition throttled_state :: state where
  "throttled_state =
     \<lparr>original_resource_limits = [2121 \<mapsto> [(''gpu_power_limit'', PInt 250), (''ionice_class'', PInt 0)]],
      trace = [], gpu_power_limit_mw = 200000\<rparr>"

text \<open>
  The amended claim C1 in the terms of the code. \<open>restore_plan\<close> lists the keys that
  \<^verbatim>\<open>restore_resources\<close> handles, in its order, each with the matching adapter of
  \<^verbatim>\<open>self\<close> and the log line that follows the adapter's return. \<open>saved_calls\<close> are the
  calls due for an entry: for each key of the plan whose saved value is truthy, the
  matching adapter applied to that saved value. \<open>run_calls\<close> makes them one after the
  other and stops at the first that raises.
\<close>

definition restore_plan ::
  "methods \<Rightarrow> mining_process \<Rightarrow> (string \<times> (pyval \<Rightarrow> state \<Rightarrow> exn option \<times> state) \<times> string) list" where
  "restore_plan self process =
     [(''cpu_freq'',
       (\<lambda>v. self_adjust_cpu_frequency self (proc_pid process) v (proc_name process)),
       ''Restored CPU frequency to {cpu_freq}MHz for process {process_name} (PID: {pid}).''),
      (''cpu_threads'',
       (\<lambda>v. self_adjust_cpu_threads self (proc_pid process) v (proc_name process)),
       ''Restored CPU threads to {cpu_threads} for process {process_name} (PID: {pid}).''),
      (''ram_allocation_mb'',
       (\<lambda>v. self_adjust_ram_allocation self (proc_pid process) v (proc_name process)),
       ''Restored RAM limit to {ram_allocation_mb}MB for process {process_name} (PID: {pid}).''),
      (''gpu_power_limit'',
       (\<lambda>v. self_adjust_gpu_power_limit self (proc_pid process) v (proc_name process)),
       ''Restored GPU power limit to {gpu_power_limit}W for process {process_name} (PID: {pid}).''),
      (''ionice_class'',
       (\<lambda>v. self_adjust_disk_io_priority self (proc_pid process) v (proc_name process)),
       ''Restored ionice class to {ionice_class} for process {process_name} (PID: {pid}).''),
      (''network_bandwidth_limit_mbps'',
       (\<lambda>v. self_adjust_network_bandwidth self process v),
       ''Restored network bandwidth limit to {network_bandwidth_limit_mbps} Mbps for process {process_name} (PID: {pid}).'')]"

definition call_for ::
  "int \<Rightarrow> (string \<times> pyval) list \<Rightarrow> string \<times> (pyval \<Rightarrow> state \<Rightarrow> exn option \<times> state) \<times> string \<Rightarrow>
   ((state \<Rightarrow> exn option \<times> state) \<times> event) list" where
  "call_for pid saved entry =
     (case entry of
        (key, adapter, msg) \<Rightarrow>
          (case map_of saved key of
             Some v \<Rightarrow> if truthy v then [(adapter v, Log Info msg [v, PInt pid])] else []
           | None \<Rightarrow> []))"

definition saved_calls ::
  "methods \<Rightarrow> mining_process \<Rightarrow> (string \<times> pyval) list \<Rightarrow>
   ((state \<Rightarrow> exn option \<times> state) \<times> event) list" where
  "saved_calls self process saved =
     concat (map (call_for (proc_pid process) saved) (restore_plan self process))"

fun run_calls :: "((state \<Rightarrow> exn option \<times> state) \<times> event) list \<Rightarrow> state \<Rightarrow> exn option \<times> state" where
  "run_calls [] s = (None, s)"
| "run_calls ((call, line) # rest) s =
     (case call s of
        (Some x, s') \<Rightarrow> (Some x, s')
      | (None, s') \<Rightarrow> run_calls rest (emit line s'))"

text \<open>
  The shared manager with its power-cap adapter replaced by one that raises, as a test
  double does.
\<close>

definition raising_manager :: methods where
  "raising_manager =
     (SharedResourceManager ok_env)
       \<lparr>self_adjust_gpu_power_limit := (\<lambda>pid v nm s. (Some NVMLError, s))\<rparr>"

text \<open>
  Readers that report a fixed frequency, bandwidth and I/O class and the power cap the
  device holds, in watts; an \<^verbatim>\<open>execute_adjustments\<close> that hands the power cap to its
  adapter; a factory whose strategy asks for a power cap of \<open>w\<close> watts; and the cloak
  built from them for the process \<open>gpu_miner\<close>.
\<close>

definition device_readers :: readers where
  "device_readers =
     \<lparr>get_current_cpu_frequency = (\<lambda>pid s. Inr (PInt 3000)),
      get_current_gpu_power_limit = (\<lambda>pid s. Inr (PInt (gpu_power_limit_mw s div 1000))),
      get_current_network_bandwidth_limit = (\<lambda>pid s. Inr (PFloat 100)),
      get_current_ionice_class = (\<lambda>pid s. Inr (PInt 2))\<rparr>"

definition execute_power_limit ::
  "env \<Rightarrow> (string \<times> pyval) list \<Rightarrow> mining_process \<Rightarrow> state \<Rightarrow> exn option \<times> state" where
  "execute_power_limit e adjustments process s =
     (case map_of adjustments ''gpu_power_limit'' of
        Some v \<Rightarrow> (None, snd (adjust_gpu_power_limit e (proc_pid process) v (proc_name process) s))
      | None \<Rightarrow> (None, s))"

definition gpu_power_strategy :: "int \<Rightarrow> string \<Rightarrow> exn + strategy option" where
  "gpu_power_strategy w strategy_name = Inr (Some (\<lambda>process. Inr [(''gpu_power_limit'', PInt w)]))"

definition cloak_gpu :: "int \<Rightarrow> state \<Rightarrow> state" where
  "cloak_gpu w s =
     snd (apply_cloak_strategy device_readers (execute_power_limit ok_env) (gpu_power_strategy w)
            ''gpu'' gpu_miner s)"



section \<open>Properties of the trace\<close>

lemma trace_emit: "trace (emit ev s) = trace s @ [ev]"
  by (simp add: emit_def)

lemma limits_emit: "original_resource_limits (emit ev s) = original_resource_limits s"
  by (simp add: emit_def)

lemma power_emit: "gpu_power_limit_mw (emit ev s) = gpu_power_limit_mw s"
  by (simp add: emit_def)

lemma new_events_append: "trace s' = trace s @ es \<Longrightarrow> new_events s s' = es"
  by (simp add: new_events_def)

section \<open>CPU threads\<close>

lemma adjust_cpu_threads_invalid:
  assumes "cpu_count e = Some c" and "n \<le> 0 \<or> c < n"
  shows "adjust_cpu_threads e pid (PInt n) nm s =
           s\<lparr>trace := trace s @
              [Log Warning ''Requested CPU threads ({desired_threads}) invalid. Skipping.'' [PInt n],
               Log Info ''Adjusted CPU threads to {cpu_threads} for process {process_name} (PID: {pid}).'' [PInt n, PInt pid]]\<rparr>"
  using assms
  by (auto simp: adjust_cpu_threads_def assign_process_resources_def assign_cpu_threads_def
      emit_def)

lemma adjust_cpu_threads_valid:
  assumes "cpu_count e = Some c" and "0 < n" and "n \<le> c"
  shows "adjust_cpu_threads e pid (PInt n) nm s =
           s\<lparr>trace := trace s @
              [Taskset (map int [0..<nat n]) pid,
               (if taskset_ok e
                then Log Info ''Applied {desired_threads} CPU threads limit for process {process_name} (PID: {pid}).'' [PInt n, PInt pid]
                else Log Error ''Error adjusting CPU threads using taskset for {process_name} (PID: {pid}): {e}'' [PInt pid]),
               Log Info ''Adjusted CPU threads to {cpu_threads} for process {process_name} (PID: {pid}).'' [PInt n, PInt pid]]\<rparr>"
  using assms
  by (auto simp: adjust_cpu_threads_def assign_process_resources_def assign_cpu_threads_def
      emit_def Let_def)

text \<open>
  Claim C3. On a host with \<open>c\<close> logical cores, \<^verbatim>\<open>adjust_cpu_threads\<close> with a requested count
  \<open>n\<close> never changes \<open>original_resource_limits\<close>. If \<open>n \<le> 0\<close> or \<open>n > c\<close>, all it
  does is log the warning and its own closing line: no \<^verbatim>\<open>taskset\<close> run. Otherwise the first
  thing it does is run \<^verbatim>\<open>taskset -cp\<close> on the cores \<open>0, ..., n - 1\<close> for the pid.
\<close>

theorem adjust_cpu_threads_bounds:
  assumes "cpu_count e = Some c"
  shows "original_resource_limits (adjust_cpu_threads e pid (PInt n) nm s) = original_resource_limits s
       \<and> (if n \<le> 0 \<or> c < n
          then new_events s (adjust_cpu_threads e pid (PInt n) nm s) =
                 [Log Warning ''Requested CPU threads ({desired_threads}) invalid. Skipping.'' [PInt n],
                  Log Info ''Adjusted CPU threads to {cpu_threads} for process {process_name} (PID: {pid}).'' [PInt n, PInt pid]]
          else take 1 (new_events s (adjust_cpu_threads e pid (PInt n) nm s)) =
                 [Taskset (map int [0..<nat n]) pid])"
proof (cases "n \<le> 0 \<or> c < n")
  case True
  show ?thesis
    unfolding adjust_cpu_threads_invalid [OF assms True]
    using True by (simp add: new_events_def)
next
  case False
  then have "0 < n" "n \<le> c" by auto
  show ?thesis
    unfolding adjust_cpu_threads_valid [OF assms \<open>0 < n\<close> \<open>n \<le> c\<close>]
    using False by (simp add: new_events_def)
qed

theorem adjust_cpu_threads_bounds_witness:
  "cpu_count ok_env = Some 4
   \<and> new_events idle_state (adjust_cpu_threads ok_env 1001 (PInt 5) ''cpu_miner'' idle_state) =
       [Log Warning ''Requested CPU threads ({desired_threads}) invalid. Skipping.'' [PInt 5],
        Log Info ''Adjusted CPU threads to {cpu_threads} for process {process_name} (PID: {pid}).'' [PInt 5, PInt 1001]]
   \<and> take 1 (new_events idle_state (adjust_cpu_threads ok_env 1001 (PInt 3) ''cpu_miner'' idle_state)) =
       [Taskset [0, 1, 2] 1001]"
proof -
  have c: "cpu_count ok_env = Some 4" by (simp add: ok_env_def)
  have e: "map int [0..<3] = [0, 1, 2]" by code_simp
  show ?thesis
    using c adjust_cpu_threads_bounds [OF c, of 1001 5 "''cpu_miner''" idle_state]
      adjust_cpu_threads_bounds [OF c, of 1001 3 "''cpu_miner''" idle_state]
    by (simp add: e)
qed

section \<open>GPU usage target\<close>

lemma new_gpu_usage_percent_Inr:
  "new_gpu_usage_percent cfg v = Inr w \<Longrightarrow>
     length w = length v \<and>
     (\<forall>i<length v. \<exists>step. gpu_power_adjustment_step cfg = Inr step \<and>
                     w ! i = py_min (py_max (py_add (v ! i) step) (Finite 0)) (Finite 100))"
proof (induction v arbitrary: w)
  case Nil
  then show ?case by simp
next
  case (Cons g rest)
  from Cons.prems obtain step vs where
    st: "gpu_power_adjustment_step cfg = Inr step" and
    vs: "new_gpu_usage_percent cfg rest = Inr vs" and
    w: "w = py_min (py_max (py_add g step) (Finite 0)) (Finite 100) # vs"
    by (auto split: sum.splits)
  from Cons.IH [OF vs] have len: "length vs = length rest"
    and el: "\<forall>i<length rest. \<exists>step. gpu_power_adjustment_step cfg = Inr step \<and>
                     vs ! i = py_min (py_max (py_add (rest ! i) step) (Finite 0)) (Finite 100)"
    by auto
  show ?case
  proof (intro conjI allI impI)
    show "length w = length (g # rest)" using w len by simp
  next
    fix i assume "i < length (g # rest)"
    then show "\<exists>step. gpu_power_adjustment_step cfg = Inr step \<and>
                 w ! i = py_min (py_max (py_add ((g # rest) ! i) step) (Finite 0)) (Finite 100)"
      using st el w by (cases i) auto
  qed
qed

lemma adjust_gpu_usage_events:
  "SetGpuUsage q w \<in> set (new_events s (adjust_gpu_usage e cfg process v s)) \<Longrightarrow>
     q = proc_pid process \<and> new_gpu_usage_percent cfg v = Inr w"
  by (auto simp: adjust_gpu_usage_def new_events_def emit_def Let_def split: sum.splits if_splits)

text \<open>The clamp keeps NaN and takes every other float into the range.\<close>

lemma clamp_NaN: "py_min (py_max NaN (Finite 0)) (Finite 100) = NaN"
  by (simp add: py_max_def py_min_def)

lemma clamp_percent: "x \<noteq> NaN \<Longrightarrow> percent (py_min (py_max x (Finite 0)) (Finite 100))"
  by (cases x) (auto simp: py_max_def py_min_def)

text \<open>
  Claim C10, amended. Whenever \<^verbatim>\<open>adjust_gpu_usage(process, v)\<close> reaches the GPU-usage setter,
  it passes the pid of the process and the vector whose \<open>i\<close>-th element is
  \<^verbatim>\<open>min(max(v[i] + step, 0), 100)\<close>, \<open>step\<close> being the configured
  \<^verbatim>\<open>gpu_power_adjustment_step\<close> (10 when the key is absent). That element lies in
  \<open>[0, 100]\<close> for every input except one thing: when \<open>v[i] + step\<close> is NaN, NaN is passed
  on. The requested element is passed on unchanged exactly where it already equals that
  expression.
\<close>

theorem adjust_gpu_usage_clamps:
  assumes "SetGpuUsage q w \<in> set (new_events s (adjust_gpu_usage e cfg process v s))"
      and "v = [] \<or> gpu_power_adjustment_step cfg = Inr step"
  shows "q = proc_pid process
       \<and> w = map (\<lambda>gpu. py_min (py_max (py_add gpu step) (Finite 0)) (Finite 100)) v
       \<and> (\<forall>i<length v. if py_add (v ! i) step = NaN then w ! i = NaN else percent (w ! i))"
proof -
  from adjust_gpu_usage_events [OF assms(1)]
  have q: "q = proc_pid process" and n: "new_gpu_usage_percent cfg v = Inr w" by auto
  from new_gpu_usage_percent_Inr [OF n] have len: "length w = length v"
    and el: "\<forall>i<length v. \<exists>st. gpu_power_adjustment_step cfg = Inr st \<and>
                     w ! i = py_min (py_max (py_add (v ! i) st) (Finite 0)) (Finite 100)" by auto
  have w: "w = map (\<lambda>gpu. py_min (py_max (py_add gpu step) (Finite 0)) (Finite 100)) v"
  proof (rule nth_equalityI)
    show "length w = length (map (\<lambda>gpu. py_min (py_max (py_add gpu step) (Finite 0)) (Finite 100)) v)"
      using len by simp
  next
    fix i assume i: "i < length w"
    then have "v \<noteq> []" using len by auto
    with assms(2) have "gpu_power_adjustment_step cfg = Inr step" by simp
    with el i len
    show "w ! i = map (\<lambda>gpu. py_min (py_max (py_add gpu step) (Finite 0)) (Finite 100)) v ! i"
      by auto
  qed
  have "\<forall>i<length v. if py_add (v ! i) step = NaN then w ! i = NaN else percent (w ! i)"
  proof (intro allI impI)
    fix i assume i: "i < length v"
    then have e: "w ! i = py_min (py_max (py_add (v ! i) step) (Finite 0)) (Finite 100)"
      using w by simp
    show "if py_add (v ! i) step = NaN then w ! i = NaN else percent (w ! i)"
      unfolding e by (simp add: clamp_NaN clamp_percent)
  qed
  with q w show ?thesis by blast
qed

lemma step_default: "gpu_power_adjustment_step default_config = Inr (Finite 10)"
  by (simp add: gpu_power_adjustment_step_def default_config_def)

text \<open>
  Claim C10 as stated says that every element passed on lies in \<open>[0, 100]\<close> for arbitrary
  input values and that the requested target is never applied verbatim. With the default
  step a requested \<open>[100, NaN]\<close> reaches the setter as \<open>[100, NaN]\<close>.
\<close>

theorem adjust_gpu_usage_verbatim_counterexample:
  "new_events idle_state (adjust_gpu_usage ok_env default_config gpu_miner [Finite 100, NaN] idle_state) =
     [SetGpuUsage 1002 [Finite 100, NaN],
      Log Info ''Adjusted GPU usage to {new_gpu_usage_percent} for process {process.name} (PID: {process.pid}).'' [PInt 1002]]
   \<and> \<not> percent NaN"
  by (simp add: adjust_gpu_usage_def step_default emit_def ok_env_def idle_state_def gpu_miner_def
      MiningProcess_def new_events_def py_max_def py_min_def)

theorem adjust_gpu_usage_clamps_witness:
  "SetGpuUsage 1002 [Finite 70, Finite 100, Finite 0, NaN] \<in>
     set (new_events idle_state
            (adjust_gpu_usage ok_env default_config gpu_miner [Finite 60, PosInf, Finite (-20), NaN] idle_state))
   \<and> gpu_power_adjustment_step default_config = Inr (Finite 10)
   \<and> [Finite 70, Finite 100, Finite 0, NaN] =
       map (\<lambda>gpu. py_min (py_max (py_add gpu (Finite 10)) (Finite 0)) (Finite 100))
         [Finite 60, PosInf, Finite (-20), NaN]
   \<and> percent (Finite 70) \<and> percent (Finite 100) \<and> percent (Finite 0)"
proof -
  have m: "SetGpuUsage 1002 [Finite 70, Finite 100, Finite 0, NaN] \<in>
     set (new_events idle_state
            (adjust_gpu_usage ok_env default_config gpu_miner [Finite 60, PosInf, Finite (-20), NaN] idle_state))"
    by (simp add: adjust_gpu_usage_def step_default emit_def ok_env_def idle_state_def gpu_miner_def
        MiningProcess_def new_events_def py_max_def py_min_def)
  have st: "[Finite 60, PosInf, Finite (-20), NaN] = [] \<or>
            gpu_power_adjustment_step default_config = Inr (Finite 10)"
    by (simp add: step_default)
  from adjust_gpu_usage_clamps [OF m st] show ?thesis using m st by simp
qed

section \<open>GPU power cap\<close>

lemma adjust_gpu_power_limit_returns_None: "fst (adjust_gpu_power_limit e pid W nm s) = PNone"
  by (auto simp: adjust_gpu_power_limit_def Let_def split: sum.splits pyval.splits)

lemma adjust_gpu_power_limit_calls:
  "external_calls (new_events s (snd (adjust_gpu_power_limit e pid (PInt w) nm s))) =
     (if \<not> nvml_init_ok e then [NvmlInit]
      else if \<not> nvml_handle_ok e then [NvmlInit, NvmlDeviceGetHandleByIndex 0]
      else if \<not> nvml_set_ok e
        then [NvmlInit, NvmlDeviceGetHandleByIndex 0, NvmlDeviceSetPowerManagementLimit 0 (PInt (w * 1000))]
      else [NvmlInit, NvmlDeviceGetHandleByIndex 0,
            NvmlDeviceSetPowerManagementLimit 0 (PInt (w * 1000)), NvmlShutdown])"
  by (simp add: adjust_gpu_power_limit_def Let_def external_calls_def new_events_def emit_def
      gpu_power_error_def)

text \<open>
  Claim C6, amended. \<^verbatim>\<open>adjust_gpu_power_limit\<close> with a target of \<open>w\<close> watts returns
  \<^verbatim>\<open>None\<close> to its caller, never the prior cap. Its SDK calls are an initial part of
  init, get handle 0, set power management limit to \<open>w * 1000\<close> mW, shutdown: the whole
  sequence when init, the handle lookup and the set call succeed.
\<close>

theorem adjust_gpu_power_limit_sequence:
  "fst (adjust_gpu_power_limit e pid (PInt w) nm s) = PNone
   \<and> (\<exists>rest. [NvmlInit, NvmlDeviceGetHandleByIndex 0,
               NvmlDeviceSetPowerManagementLimit 0 (PInt (w * 1000)), NvmlShutdown] =
              external_calls (new_events s (snd (adjust_gpu_power_limit e pid (PInt w) nm s))) @ rest)
   \<and> (nvml_init_ok e \<and> nvml_handle_ok e \<and> nvml_set_ok e \<longrightarrow>
        external_calls (new_events s (snd (adjust_gpu_power_limit e pid (PInt w) nm s))) =
          [NvmlInit, NvmlDeviceGetHandleByIndex 0,
           NvmlDeviceSetPowerManagementLimit 0 (PInt (w * 1000)), NvmlShutdown])"
proof (intro conjI impI)
  show "fst (adjust_gpu_power_limit e pid (PInt w) nm s) = PNone"
    by (rule adjust_gpu_power_limit_returns_None)
next
  show "\<exists>rest. [NvmlInit, NvmlDeviceGetHandleByIndex 0,
               NvmlDeviceSetPowerManagementLimit 0 (PInt (w * 1000)), NvmlShutdown] =
              external_calls (new_events s (snd (adjust_gpu_power_limit e pid (PInt w) nm s))) @ rest"
    unfolding adjust_gpu_power_limit_calls by simp
next
  assume "nvml_init_ok e \<and> nvml_handle_ok e \<and> nvml_set_ok e"
  then show "external_calls (new_events s (snd (adjust_gpu_power_limit e pid (PInt w) nm s))) =
          [NvmlInit, NvmlDeviceGetHandleByIndex 0,
           NvmlDeviceSetPowerManagementLimit 0 (PInt (w * 1000)), NvmlShutdown]"
    unfolding adjust_gpu_power_limit_calls by simp
qed

theorem adjust_gpu_power_limit_sequence_witness:
  "nvml_init_ok ok_env \<and> nvml_handle_ok ok_env \<and> nvml_set_ok ok_env
   \<and> external_calls (new_events idle_state (snd (adjust_gpu_power_limit ok_env 1515 (PInt 200) ''gpu_power_process'' idle_state))) =
       [NvmlInit, NvmlDeviceGetHandleByIndex 0,
        NvmlDeviceSetPowerManagementLimit 0 (PInt 200000), NvmlShutdown]"
proof -
  have ok: "nvml_init_ok ok_env \<and> nvml_handle_ok ok_env \<and> nvml_set_ok ok_env"
    by (simp add: ok_env_def)
  show ?thesis
    using ok adjust_gpu_power_limit_sequence [of ok_env 1515 200 "''gpu_power_process''" idle_state]
    by simp
qed

text \<open>
  Claim C6 as stated: with the device capped at 250 W and a target of 200 W the caller
  does not get 250 back; and when the device rejects the new cap, the sequence stops there.
\<close>

theorem adjust_gpu_power_limit_counterexample:
  "gpu_power_limit_mw idle_state = 250 * 1000
   \<and> fst (adjust_gpu_power_limit ok_env 1515 (PInt 200) ''gpu_power_process'' idle_state) \<noteq> PInt 250
   \<and> external_calls (new_events idle_state (snd (adjust_gpu_power_limit set_fails_env 1515 (PInt 200) ''gpu_power_process'' idle_state))) =
       [NvmlInit, NvmlDeviceGetHandleByIndex 0, NvmlDeviceSetPowerManagementLimit 0 (PInt 200000)]"
  by (simp add: adjust_gpu_power_limit_returns_None adjust_gpu_power_limit_calls idle_state_def
      set_fails_env_def ok_env_def)

section \<open>GPU usage of a process\<close>

lemma sum_memory_no_zdiv:
  "\<forall>i. q i \<noteq> Inl ZeroDivisionError \<Longrightarrow> sum_memory f q is acc \<noteq> Inl ZeroDivisionError"
  by (induction "is" arbitrary: acc) (auto split: sum.splits)

lemma getters_no_zdiv:
  assumes "\<forall>i. q i \<noteq> Inl ZeroDivisionError"
  shows "get_total_gpu_memory gm q \<noteq> Inl ZeroDivisionError"
    and "get_used_gpu_memory gm q \<noteq> Inl ZeroDivisionError"
  using sum_memory_no_zdiv [OF assms]
  by (auto simp: get_total_gpu_memory_def get_used_gpu_memory_def split: sum.splits exn.splits)

text \<open>
  Claim C9. \<^verbatim>\<open>get_gpu_usage\<close> never divides by zero: unless a device query itself raises
  \<^verbatim>\<open>ZeroDivisionError\<close>, its \<^verbatim>\<open>try\<close> block never does. With an uninitialised manager the
  result is 0; with a total of 0 it is 0; when anything in the \<^verbatim>\<open>try\<close> block raises it is
  0; otherwise it is \<open>used / total * 100\<close>.
\<close>

theorem get_gpu_usage_never_divides_by_zero:
  "((\<forall>i. qt i \<noteq> Inl ZeroDivisionError) \<and> (\<forall>i. qu i \<noteq> Inl ZeroDivisionError) \<longrightarrow>
      get_gpu_usage_try gm qt qu \<noteq> Inl ZeroDivisionError)
   \<and> (\<not> gm_gpu_initialized gm \<longrightarrow> get_gpu_usage gm qt qu = 0)
   \<and> (get_total_gpu_memory gm qt = Inr 0 \<longrightarrow> get_gpu_usage gm qt qu = 0)
   \<and> (get_gpu_usage_try gm qt qu = Inl x \<longrightarrow> get_gpu_usage gm qt qu = 0)
   \<and> (gm_gpu_initialized gm \<and> get_total_gpu_memory gm qt = Inr tot \<and> tot \<noteq> 0 \<and>
      get_used_gpu_memory gm qu = Inr used \<longrightarrow> get_gpu_usage gm qt qu = used / tot * 100)"
proof (intro conjI impI)
  assume a: "(\<forall>i. qt i \<noteq> Inl ZeroDivisionError) \<and> (\<forall>i. qu i \<noteq> Inl ZeroDivisionError)"
  then have "get_total_gpu_memory gm qt \<noteq> Inl ZeroDivisionError"
    and "get_used_gpu_memory gm qu \<noteq> Inl ZeroDivisionError"
    using getters_no_zdiv by blast+
  then show "get_gpu_usage_try gm qt qu \<noteq> Inl ZeroDivisionError"
    by (auto simp: get_gpu_usage_try_def py_truediv_def split: sum.splits)
next
  assume "\<not> gm_gpu_initialized gm"
  then show "get_gpu_usage gm qt qu = 0" by (simp add: get_gpu_usage_def)
next
  assume "get_total_gpu_memory gm qt = Inr 0"
  then show "get_gpu_usage gm qt qu = 0"
    by (simp add: get_gpu_usage_def get_gpu_usage_try_def split: sum.splits)
next
  assume "get_gpu_usage_try gm qt qu = Inl x"
  then show "get_gpu_usage gm qt qu = 0" by (simp add: get_gpu_usage_def)
next
  assume "gm_gpu_initialized gm \<and> get_total_gpu_memory gm qt = Inr tot \<and> tot \<noteq> 0 \<and>
      get_used_gpu_memory gm qu = Inr used"
  then show "get_gpu_usage gm qt qu = used / tot * 100"
    by (simp add: get_gpu_usage_def get_gpu_usage_try_def py_truediv_def)
qed

lemma half_used_total: "get_total_gpu_memory one_gpu half_used = Inr 8192"
  by (simp add: get_total_gpu_memory_def one_gpu_def half_used_def)

lemma half_used_used: "get_used_gpu_memory one_gpu half_used = Inr 4096"
  by (simp add: get_used_gpu_memory_def one_gpu_def half_used_def)

lemma no_memory_total: "get_total_gpu_memory one_gpu no_memory = Inr 0"
  by (simp add: get_total_gpu_memory_def one_gpu_def no_memory_def)

theorem get_gpu_usage_never_divides_by_zero_witness:
  "get_total_gpu_memory one_gpu no_memory = Inr 0
   \<and> get_gpu_usage one_gpu no_memory no_memory = 0
   \<and> get_gpu_usage_try one_gpu no_memory no_memory \<noteq> Inl ZeroDivisionError
   \<and> gm_gpu_initialized one_gpu
   \<and> get_total_gpu_memory one_gpu half_used = Inr 8192
   \<and> get_used_gpu_memory one_gpu half_used = Inr 4096
   \<and> get_gpu_usage one_gpu half_used half_used = 50"
proof -
  have q: "(\<forall>i. no_memory i \<noteq> Inl ZeroDivisionError) \<and> (\<forall>i. no_memory i \<noteq> Inl ZeroDivisionError)"
    by (simp add: no_memory_def)
  have i: "gm_gpu_initialized one_gpu" by (simp add: one_gpu_def)
  show ?thesis
    using q i no_memory_total half_used_total half_used_used
      get_gpu_usage_never_divides_by_zero [of no_memory no_memory one_gpu undefined 0 0]
      get_gpu_usage_never_divides_by_zero [of half_used half_used one_gpu undefined 8192 4096]
    by simp
qed

section \<open>Sampling a process\<close>

lemma is_gpu_process_name: "proc_name p' = proc_name p \<Longrightarrow> is_gpu_process p' = is_gpu_process p"
  by (simp add: is_gpu_process_def)

lemma update_network_io_fields:
  "proc_name (update_network_io c p) = proc_name p"
  "gpu_initialized (update_network_io c p) = gpu_initialized p"
  "network_interface (update_network_io c p) = network_interface p"
  by (auto simp: update_network_io_def split: option.splits prod.splits)

lemma gpu_usage_after_update:
  "gpu_usage (update_resource_usage gm qt qu sample p) =
     (case sample of
        Counters c \<Rightarrow> if gpu_initialized p \<and> is_gpu_process p then get_gpu_usage gm qt qu else 0
      | _ \<Rightarrow> 0)"
proof (cases sample)
  case (Counters c)
  let ?p1 = "p\<lparr>cpu_usage := cpu_percent c, memory_usage := memory_percent c,
               disk_io := real_of_int (read_bytes c + write_bytes c) / (1024 * 1024)\<rparr>"
  have n: "is_gpu_process (update_network_io c ?p1) = is_gpu_process p"
    by (rule is_gpu_process_name) (simp add: update_network_io_fields)
  have g: "gpu_initialized (update_network_io c ?p1) = gpu_initialized p"
    by (simp add: update_network_io_fields)
  show ?thesis using Counters n g
    by (simp add: update_resource_usage_def Let_def)
qed (simp_all add: update_resource_usage_def)

text \<open>
  Claim C4. After \<^verbatim>\<open>update_resource_usage\<close>, a process whose lower-cased name contains none
  of the GPU-worker keywords of \<^verbatim>\<open>is_gpu_process\<close> has GPU usage 0, whatever the devices
  report. A process that does match, on a host whose GPU manager is initialised and reports
  a non-zero total, has GPU usage \<open>used / total * 100\<close>: there is no per-process figure.
\<close>

theorem update_resource_usage_gpu:
  "(\<not> is_gpu_process p \<longrightarrow> gpu_usage (update_resource_usage gm qt qu sample p) = 0)
   \<and> (is_gpu_process p \<and> gpu_initialized p \<and> gm_gpu_initialized gm \<and> sample = Counters c \<and>
      get_total_gpu_memory gm qt = Inr tot \<and> tot \<noteq> 0 \<and> get_used_gpu_memory gm qu = Inr used \<longrightarrow>
        gpu_usage (update_resource_usage gm qt qu sample p) = used / tot * 100)"
  unfolding gpu_usage_after_update
  by (auto simp: get_gpu_usage_def get_gpu_usage_try_def py_truediv_def split: os_sample.splits)

lemma cpu_miner_not_gpu: "\<not> is_gpu_process cpu_miner"
  by (simp add: is_gpu_process_def cpu_miner_def MiningProcess_def gpu_process_keywords_def
      lower_def lower_char_def)

lemma gpu_miner_gpu: "is_gpu_process gpu_miner"
  by (simp add: is_gpu_process_def gpu_miner_def MiningProcess_def gpu_process_keywords_def
      lower_def lower_char_def)

theorem update_resource_usage_gpu_witness:
  "\<not> is_gpu_process cpu_miner
   \<and> gpu_usage (update_resource_usage one_gpu half_used half_used (Counters sample1) cpu_miner) = 0
   \<and> is_gpu_process gpu_miner \<and> gpu_initialized gpu_miner \<and> gm_gpu_initialized one_gpu
   \<and> get_total_gpu_memory one_gpu half_used = Inr 8192
   \<and> get_used_gpu_memory one_gpu half_used = Inr 4096
   \<and> gpu_usage (update_resource_usage one_gpu half_used half_used (Counters sample1) gpu_miner) = 50"
proof -
  have i: "gpu_initialized gpu_miner" "gm_gpu_initialized one_gpu"
    by (simp_all add: gpu_miner_def MiningProcess_def one_gpu_def)
  show ?thesis
    using cpu_miner_not_gpu gpu_miner_gpu i half_used_total half_used_used
      update_resource_usage_gpu [of cpu_miner one_gpu half_used half_used "Counters sample1" sample1 8192 4096]
      update_resource_usage_gpu [of gpu_miner one_gpu half_used half_used "Counters sample1" sample1 8192 4096]
    by simp
qed


lemma update_resource_usage_interface:
  "network_interface (update_resource_usage gm qt qu sample p) = network_interface p"
  by (cases sample) (simp_all add: update_resource_usage_def Let_def update_network_io_fields)

lemma update_all_append:
  "update_all gm q (xs @ ys) p = update_all gm q ys (update_all gm q xs p)"
  by (induction xs arbitrary: p) simp_all

lemma update_all_interface:
  "network_interface (update_all gm q samples p) = network_interface p"
  by (induction samples arbitrary: p) (simp_all add: update_resource_usage_interface)

lemma first_sample:
  "prev_bytes_sent p = None \<Longrightarrow> network_io (update_resource_usage gm qt qu sample p) = 0"
  by (cases sample)
     (auto simp: update_resource_usage_def update_network_io_def Let_def split: option.splits)

lemma sample_records:
  assumes "map_of (net_io c) (network_interface p) = Some (sent, recv)"
  shows "prev_bytes_sent (update_resource_usage gm qt qu (Counters c) p) = Some sent"
    and "prev_bytes_recv (update_resource_usage gm qt qu (Counters c) p) = Some recv"
  using assms
  by (auto simp: update_resource_usage_def update_network_io_def Let_def split: option.splits)

lemma next_sample:
  assumes "map_of (net_io c) (network_interface p) = Some (sent, recv)"
    and "prev_bytes_sent p = Some ps" and "prev_bytes_recv p = Some pr"
  shows "network_io (update_resource_usage gm qt qu (Counters c) p) =
           real_of_int ((sent - ps) + (recv - pr)) / (1024 * 1024)"
  using assms
  by (auto simp: update_resource_usage_def update_network_io_def Let_def split: option.splits)

text \<open>
  Claim C5. The first \<^verbatim>\<open>update_resource_usage\<close> of a freshly constructed process reports a
  network I/O of 0, whatever the sample. After any earlier samples, two successive samples
  that both read the counters of the process's interface leave a network I/O of
  \<open>((sent2 - sent1) + (recv2 - recv1)) / (1024 * 1024)\<close> MB.
\<close>

theorem network_io_samples:
  "network_io (update_resource_usage gm qt qu sample (MiningProcess gm0 pid name prio interface)) = 0
   \<and> (map_of (net_io c1) interface = Some (sent1, recv1) \<and>
      map_of (net_io c2) interface = Some (sent2, recv2) \<longrightarrow>
        network_io (update_all gm q (earlier @ [Counters c1, Counters c2])
                      (MiningProcess gm0 pid name prio interface)) =
          real_of_int ((sent2 - sent1) + (recv2 - recv1)) / (1024 * 1024))"
proof (intro conjI impI)
  show "network_io (update_resource_usage gm qt qu sample (MiningProcess gm0 pid name prio interface)) = 0"
    by (rule first_sample) (simp add: MiningProcess_def)
next
  assume a: "map_of (net_io c1) interface = Some (sent1, recv1) \<and>
      map_of (net_io c2) interface = Some (sent2, recv2)"
  let ?p = "update_all gm q earlier (MiningProcess gm0 pid name prio interface)"
  let ?p1 = "update_resource_usage gm q q (Counters c1) ?p"
  have i: "network_interface ?p = interface"
    by (simp add: update_all_interface MiningProcess_def)
  then have i1: "network_interface ?p1 = interface"
    by (simp add: update_resource_usage_interface)
  have r: "prev_bytes_sent ?p1 = Some sent1" "prev_bytes_recv ?p1 = Some recv1"
    using a i sample_records [of c1 ?p sent1 recv1 gm q q] by simp_all
  have "network_io (update_resource_usage gm q q (Counters c2) ?p1) =
          real_of_int ((sent2 - sent1) + (recv2 - recv1)) / (1024 * 1024)"
    using a i1 r next_sample [of c2 ?p1 sent2 recv2 sent1 recv1 gm q q] by simp
  then show "network_io (update_all gm q (earlier @ [Counters c1, Counters c2])
                      (MiningProcess gm0 pid name prio interface)) =
          real_of_int ((sent2 - sent1) + (recv2 - recv1)) / (1024 * 1024)"
    by (simp add: update_all_append)
qed

theorem network_io_samples_witness:
  "map_of (net_io sample1) ''eth0'' = Some (1048576, 2097152)
   \<and> map_of (net_io sample2) ''eth0'' = Some (3145728, 5242880)
   \<and> network_io (update_all one_gpu half_used [Counters sample1] (MiningProcess one_gpu 1001 ''cpu_miner'' 2 ''eth0'')) = 0
   \<and> network_io (update_all one_gpu half_used [NoSuchProcess, Counters sample1, Counters sample2]
                   (MiningProcess one_gpu 1001 ''cpu_miner'' 2 ''eth0'')) = 5"
proof -
  have m: "map_of (net_io sample1) ''eth0'' = Some (1048576, 2097152)"
     "map_of (net_io sample2) ''eth0'' = Some (3145728, 5242880)"
    by (simp_all add: sample1_def sample2_def)
  show ?thesis
    using m
      network_io_samples [of one_gpu half_used half_used "Counters sample1" one_gpu 1001 "''cpu_miner''" 2 "''eth0''"
         sample1 1048576 2097152 sample2 3145728 5242880 half_used "[NoSuchProcess]"]
    by simp
qed

section \<open>Restoring the original limits\<close>

lemma adapter_invoked_simps [simp]:
  "adapter_invoked k [] = False"
  "adapter_invoked k (es @ fs) = (adapter_invoked k es \<or> adapter_invoked k fs)"
  "adapter_invoked k (ev # es) = (adapter_mark k ev \<or> adapter_invoked k es)"
  by (simp_all add: adapter_invoked_def)

lemma acts_cpu_frequency: "acts_for ''cpu_freq'' (adjust_cpu_frequency e pid v nm)"
  unfolding acts_for_def
proof (intro allI conjI)
  fix s
  show "original_resource_limits (adjust_cpu_frequency e pid v nm s) = original_resource_limits s"
    by (simp add: adjust_cpu_frequency_def assign_process_resources_def emit_def)
  show "\<exists>es. trace (adjust_cpu_frequency e pid v nm s) = trace s @ es \<and>
          (\<forall>k. adapter_invoked k es = (k = ''cpu_freq''))"
    by (rule exI [where x = "new_events s (adjust_cpu_frequency e pid v nm s)"])
       (auto simp: adjust_cpu_frequency_def assign_process_resources_def emit_def new_events_def)
qed

lemma acts_ram_allocation: "acts_for ''ram_allocation_mb'' (adjust_ram_allocation e pid v nm)"
  unfolding acts_for_def
proof (intro allI conjI)
  fix s
  show "original_resource_limits (adjust_ram_allocation e pid v nm s) = original_resource_limits s"
    by (simp add: adjust_ram_allocation_def assign_process_resources_def emit_def)
  show "\<exists>es. trace (adjust_ram_allocation e pid v nm s) = trace s @ es \<and>
          (\<forall>k. adapter_invoked k es = (k = ''ram_allocation_mb''))"
    by (rule exI [where x = "new_events s (adjust_ram_allocation e pid v nm s)"])
       (auto simp: adjust_ram_allocation_def assign_process_resources_def emit_def new_events_def)
qed

lemma assign_cpu_threads_acts:
  "original_resource_limits (assign_cpu_threads e pid v s) = original_resource_limits s \<and>
   (\<exists>es. trace (assign_cpu_threads e pid v s) = trace s @ es \<and> (\<forall>k. \<not> adapter_invoked k es))"
  by (auto simp: assign_cpu_threads_def emit_def Let_def split: sum.splits bool.splits)

lemma acts_cpu_threads: "acts_for ''cpu_threads'' (adjust_cpu_threads e pid v nm)"
  unfolding acts_for_def
proof (intro allI)
  fix s
  from assign_cpu_threads_acts [of e pid v s] obtain es where
    l: "original_resource_limits (assign_cpu_threads e pid v s) = original_resource_limits s"
    and t: "trace (assign_cpu_threads e pid v s) = trace s @ es" and n: "\<forall>k. \<not> adapter_invoked k es"
    by blast
  have a: "adjust_cpu_threads e pid v nm s =
        emit (Log Info ''Adjusted CPU threads to {cpu_threads} for process {process_name} (PID: {pid}).'' [v, PInt pid])
          (assign_cpu_threads e pid v s)"
    by (simp add: adjust_cpu_threads_def assign_process_resources_def)
  show "original_resource_limits (adjust_cpu_threads e pid v nm s) = original_resource_limits s \<and>
        (\<exists>es. trace (adjust_cpu_threads e pid v nm s) = trace s @ es \<and>
          (\<forall>k. adapter_invoked k es = (k = ''cpu_threads'')))"
    unfolding a using l t n
    by (auto simp: limits_emit trace_emit)
qed

lemma acts_gpu_power_limit:
  "acts_for ''gpu_power_limit'' (\<lambda>s. snd (adjust_gpu_power_limit e pid v nm s))"
  unfolding acts_for_def
proof (intro allI conjI)
  fix s
  show "original_resource_limits (snd (adjust_gpu_power_limit e pid v nm s)) = original_resource_limits s"
    by (auto simp: adjust_gpu_power_limit_def gpu_power_error_def emit_def Let_def
        split: sum.splits pyval.splits)
  show "\<exists>es. trace (snd (adjust_gpu_power_limit e pid v nm s)) = trace s @ es \<and>
          (\<forall>k. adapter_invoked k es = (k = ''gpu_power_limit''))"
    by (rule exI [where x = "new_events s (snd (adjust_gpu_power_limit e pid v nm s))"])
       (auto simp: adjust_gpu_power_limit_def gpu_power_error_def emit_def Let_def new_events_def
        split: sum.splits pyval.splits)
qed

lemma acts_disk_io_priority: "acts_for ''ionice_class'' (adjust_disk_io_priority e pid v nm)"
  unfolding acts_for_def
proof (intro allI conjI)
  fix s
  show "original_resource_limits (adjust_disk_io_priority e pid v nm s) = original_resource_limits s"
    by (simp add: adjust_disk_io_priority_def emit_def Let_def split: option.splits exn.splits)
  show "\<exists>es. trace (adjust_disk_io_priority e pid v nm s) = trace s @ es \<and>
          (\<forall>k. adapter_invoked k es = (k = ''ionice_class''))"
    by (rule exI [where x = "new_events s (adjust_disk_io_priority e pid v nm s)"])
       (auto simp: adjust_disk_io_priority_def emit_def Let_def new_events_def
        split: option.splits exn.splits)
qed

lemma acts_network_bandwidth:
  "acts_for ''network_bandwidth_limit_mbps'' (adjust_network_bandwidth p v)"
  unfolding acts_for_def
proof (intro allI conjI)
  fix s
  show "original_resource_limits (adjust_network_bandwidth p v s) = original_resource_limits s"
    by (simp add: adjust_network_bandwidth_def emit_def)
  show "\<exists>es. trace (adjust_network_bandwidth p v s) = trace s @ es \<and>
          (\<forall>k. adapter_invoked k es = (k = ''network_bandwidth_limit_mbps''))"
    by (rule exI [where x = "new_events s (adjust_network_bandwidth p v s)"])
       (auto simp: adjust_network_bandwidth_def emit_def new_events_def)
qed


lemma restored_start: "restored_so_far saved s {} (None, s)"
  by (simp add: restored_so_far_def)

lemma restored_step:
  assumes r: "restored_so_far saved s K r"
    and f: "\<And>v. acts_for key (f v)"
    and m: "\<And>k args. \<not> adapter_mark k (Log Info msg args)"
  shows "restored_so_far saved s (insert key K)
           (and_then r (restore_key saved key (\<lambda>v s. (None, f v s)) msg pid))"
proof -
  from r obtain s1 es where r1: "r = (None, s1)"
    and l1: "original_resource_limits s1 = original_resource_limits s"
    and t1: "trace s1 = trace s @ es"
    and i1: "\<forall>k. adapter_invoked k es = (k \<in> K \<and> saved_truthy saved k)"
    by (cases r) (auto simp: restored_so_far_def)
  show ?thesis
  proof (cases "saved_truthy saved key")
    case False
    then have "and_then r (restore_key saved key (\<lambda>v s. (None, f v s)) msg pid) = (None, s1)"
      by (auto simp: r1 and_then_def restore_key_def saved_truthy_def split: option.splits)
    then show ?thesis using l1 t1 i1 False
      by (auto simp: restored_so_far_def)
  next
    case True
    then obtain v where v: "map_of saved key = Some v" "truthy v"
      by (auto simp: saved_truthy_def split: option.splits)
    from f [of v] obtain fs where
      l2: "original_resource_limits (f v s1) = original_resource_limits s1"
      and t2: "trace (f v s1) = trace s1 @ fs"
      and i2: "\<forall>k. adapter_invoked k fs = (k = key)"
      unfolding acts_for_def by blast
    have e: "and_then r (restore_key saved key (\<lambda>v s. (None, f v s)) msg pid) =
               (None, emit (Log Info msg [v, PInt pid]) (f v s1))"
      using v by (simp add: r1 and_then_def restore_key_def)
    have "trace (emit (Log Info msg [v, PInt pid]) (f v s1)) =
            trace s @ (es @ fs @ [Log Info msg [v, PInt pid]])"
      by (simp add: trace_emit t2 t1)
    moreover have "\<forall>k. adapter_invoked k (es @ fs @ [Log Info msg [v, PInt pid]]) =
                     (k \<in> insert key K \<and> saved_truthy saved k)"
      using i1 i2 m True by auto
    ultimately show ?thesis
      unfolding e restored_so_far_def using l1 l2
      by (auto simp: limits_emit)
  qed
qed

lemma restore_resources_shared:
  assumes entry: "original_resource_limits s (proc_pid p) = Some saved" and ne: "saved \<noteq> []"
  shows "\<exists>s' es. restore_resources (SharedResourceManager e) p s = (None, s') \<and>
           original_resource_limits s' = (original_resource_limits s)(proc_pid p := None) \<and>
           trace s' = trace s @ es \<and>
           (\<forall>k. adapter_invoked k es = (k \<in> set restorable_keys \<and> saved_truthy saved k))"
proof -
  let ?pid = "proc_pid p" and ?nm = "proc_name p"
  let ?r =
    "and_then (and_then (and_then (and_then (and_then (and_then (None, s)
       (restore_key saved ''cpu_freq'' (\<lambda>v s. (None, adjust_cpu_frequency e ?pid v ?nm s))
          ''Restored CPU frequency to {cpu_freq}MHz for process {process_name} (PID: {pid}).'' ?pid))
       (restore_key saved ''cpu_threads'' (\<lambda>v s. (None, adjust_cpu_threads e ?pid v ?nm s))
          ''Restored CPU threads to {cpu_threads} for process {process_name} (PID: {pid}).'' ?pid))
       (restore_key saved ''ram_allocation_mb'' (\<lambda>v s. (None, adjust_ram_allocation e ?pid v ?nm s))
          ''Restored RAM limit to {ram_allocation_mb}MB for process {process_name} (PID: {pid}).'' ?pid))
       (restore_key saved ''gpu_power_limit'' (\<lambda>v s. (None, snd (adjust_gpu_power_limit e ?pid v ?nm s)))
          ''Restored GPU power limit to {gpu_power_limit}W for process {process_name} (PID: {pid}).'' ?pid))
       (restore_key saved ''ionice_class'' (\<lambda>v s. (None, adjust_disk_io_priority e ?pid v ?nm s))
          ''Restored ionice class to {ionice_class} for process {process_name} (PID: {pid}).'' ?pid))
       (restore_key saved ''network_bandwidth_limit_mbps'' (\<lambda>v s. (None, adjust_network_bandwidth p v s))
          ''Restored network bandwidth limit to {network_bandwidth_limit_mbps} Mbps for process {process_name} (PID: {pid}).'' ?pid)"
  define r where "r = ?r"
  define K where "K = insert ''network_bandwidth_limit_mbps'' (insert ''ionice_class''
            (insert ''gpu_power_limit'' (insert ''ram_allocation_mb''
              (insert ''cpu_threads'' (insert ''cpu_freq'' ({} :: string set))))))"
  have K: "K = set restorable_keys"
    unfolding K_def restorable_keys_def by (simp add: insert_commute)
  have "restored_so_far saved s K r"
    unfolding r_def K_def
    by (intro restored_step restored_start acts_cpu_frequency acts_cpu_threads
        acts_ram_allocation acts_gpu_power_limit acts_disk_io_priority acts_network_bandwidth)
       simp_all
  then obtain s6 es where r6: "r = (None, s6)"
    and l6: "original_resource_limits s6 = original_resource_limits s"
    and t6: "trace s6 = trace s @ es"
    and i6: "\<forall>k. adapter_invoked k es = (k \<in> set restorable_keys \<and> saved_truthy saved k)"
    unfolding K restored_so_far_def by (cases r) auto
  let ?fin = "Log Info ''Restored all resources for process {process_name} (PID: {pid}).'' [PInt ?pid]"
  let ?s' = "emit ?fin (s6\<lparr>original_resource_limits := (original_resource_limits s6)(?pid := None)\<rparr>)"
  have d: "and_then r (delete_limits ?pid) = (None, ?s')"
    using l6 entry by (simp add: r6 and_then_def delete_limits_def)
  have u: "restore_resources (SharedResourceManager e) p s =
             (case and_then r (delete_limits ?pid) of
                (Some x, s') \<Rightarrow>
                  (Some x, emit (Log Error ''Error while restoring resources for process {process.name} (PID: {process.pid}): {e}'' [PInt ?pid]) s')
              | (None, s') \<Rightarrow> (None, s'))"
    unfolding r_def using entry ne
    by (simp add: restore_resources_def SharedResourceManager_def Let_def and_then_def [of "(None, s)"])
  have "restore_resources (SharedResourceManager e) p s = (None, ?s')"
    unfolding u d by simp
  moreover have "original_resource_limits ?s' = (original_resource_limits s)(?pid := None)"
    by (simp add: limits_emit l6)
  moreover have "trace ?s' = trace s @ (es @ [?fin])"
    by (simp add: trace_emit t6)
  moreover have "\<forall>k. adapter_invoked k (es @ [?fin]) = (k \<in> set restorable_keys \<and> saved_truthy saved k)"
    using i6 by simp
  ultimately show ?thesis by blast
qed

lemma restore_key_keeps:
  assumes "\<And>v s. original_resource_limits (snd (adapter v s)) = original_resource_limits s"
  shows "original_resource_limits (snd (restore_key saved key adapter msg pid s)) = original_resource_limits s"
proof (cases "map_of saved key")
  case None
  then show ?thesis by (simp add: restore_key_def)
next
  case (Some v)
  show ?thesis
  proof (cases "truthy v")
    case False
    with Some show ?thesis by (simp add: restore_key_def)
  next
    case True
    obtain x s1 where a: "adapter v s = (x, s1)" by (cases "adapter v s")
    with assms [of v s] have "original_resource_limits s1 = original_resource_limits s" by simp
    with Some True a show ?thesis
      by (cases x) (simp_all add: restore_key_def and_then_def limits_emit)
  qed
qed

lemma and_then_keeps:
  assumes "original_resource_limits (snd r) = L"
    and "\<And>s. original_resource_limits (snd (f s)) = original_resource_limits s"
  shows "original_resource_limits (snd (and_then r f)) = L"
proof (cases r)
  case (Pair x s1)
  with assms show ?thesis by (cases x) (simp_all add: and_then_def)
qed

lemma restore_resources_entry:
  assumes entry: "original_resource_limits s (proc_pid p) = Some saved" and ne: "saved \<noteq> []"
    and keeps: "keeps_limits self"
  shows "case restore_resources self p s of
           (None, s') \<Rightarrow> original_resource_limits s' = (original_resource_limits s)(proc_pid p := None)
         | (Some x, s') \<Rightarrow> original_resource_limits s' = original_resource_limits s"
proof -
  let ?pid = "proc_pid p" and ?nm = "proc_name p"
  let ?r =
    "and_then (and_then (and_then (and_then (and_then
       (restore_key saved ''cpu_freq'' (\<lambda>v. self_adjust_cpu_frequency self ?pid v ?nm)
          ''Restored CPU frequency to {cpu_freq}MHz for process {process_name} (PID: {pid}).'' ?pid s)
       (restore_key saved ''cpu_threads'' (\<lambda>v. self_adjust_cpu_threads self ?pid v ?nm)
          ''Restored CPU threads to {cpu_threads} for process {process_name} (PID: {pid}).'' ?pid))
       (restore_key saved ''ram_allocation_mb'' (\<lambda>v. self_adjust_ram_allocation self ?pid v ?nm)
          ''Restored RAM limit to {ram_allocation_mb}MB for process {process_name} (PID: {pid}).'' ?pid))
       (restore_key saved ''gpu_power_limit'' (\<lambda>v. self_adjust_gpu_power_limit self ?pid v ?nm)
          ''Restored GPU power limit to {gpu_power_limit}W for process {process_name} (PID: {pid}).'' ?pid))
       (restore_key saved ''ionice_class'' (\<lambda>v. self_adjust_disk_io_priority self ?pid v ?nm)
          ''Restored ionice class to {ionice_class} for process {process_name} (PID: {pid}).'' ?pid))
       (restore_key saved ''network_bandwidth_limit_mbps'' (\<lambda>v. self_adjust_network_bandwidth self p v)
          ''Restored network bandwidth limit to {network_bandwidth_limit_mbps} Mbps for process {process_name} (PID: {pid}).'' ?pid)"
  define r where "r = ?r"
  have k: "original_resource_limits (snd r) = original_resource_limits s"
    unfolding r_def using keeps
    by (intro and_then_keeps restore_key_keeps) (simp_all add: keeps_limits_def)
  have u: "restore_resources self p s =
             (case and_then r (delete_limits ?pid) of
                (Some x, s') \<Rightarrow>
                  (Some x, emit (Log Error ''Error while restoring resources for process {process.name} (PID: {process.pid}): {e}'' [PInt ?pid]) s')
              | (None, s') \<Rightarrow> (None, s'))"
    unfolding r_def using entry ne
    by (simp add: restore_resources_def Let_def)
  obtain x s6 where r6: "r = (x, s6)" by (cases r)
  with k have l6: "original_resource_limits s6 = original_resource_limits s" by simp
  show ?thesis
    unfolding u r6 using l6 entry
    by (cases x) (simp_all add: and_then_def delete_limits_def limits_emit)
qed

lemma run_calls_append:
  "run_calls (xs @ ys) s = and_then (run_calls xs s) (run_calls ys)"
proof (induction xs arbitrary: s)
  case Nil
  show ?case by (simp add: and_then_def)
next
  case (Cons c xs)
  obtain call line where c: "c = (call, line)" by (cases c)
  obtain x s1 where r: "call s = (x, s1)" by (cases "call s")
  show ?case
    using Cons.IH [of "emit line s1"] c r
    by (cases x) (simp_all add: and_then_def)
qed

lemma restore_key_calls:
  "restore_key saved key adapter msg pid = run_calls (call_for pid saved (key, adapter, msg))"
proof
  fix s
  show "restore_key saved key adapter msg pid s = run_calls (call_for pid saved (key, adapter, msg)) s"
  proof (cases "map_of saved key")
    case None
    then show ?thesis by (simp add: restore_key_def call_for_def)
  next
    case (Some v)
    obtain x s1 where r: "adapter v s = (x, s1)" by (cases "adapter v s")
    show ?thesis
      using Some r by (cases x) (simp_all add: restore_key_def call_for_def and_then_def)
  qed
qed

lemma run_calls_keeps:
  assumes "\<And>call line s. (call, line) \<in> set cs \<Longrightarrow>
             original_resource_limits (snd (call s)) = original_resource_limits s"
  shows "original_resource_limits (snd (run_calls cs s)) = original_resource_limits s"
  using assms
proof (induction cs arbitrary: s)
  case Nil
  show ?case by simp
next
  case (Cons c cs)
  obtain call line where c: "c = (call, line)" by (cases c)
  obtain x s1 where r: "call s = (x, s1)" by (cases "call s")
  have k: "original_resource_limits s1 = original_resource_limits s"
    using Cons.prems [of call line s] c r by simp
  show ?case
  proof (cases x)
    case None
    have "original_resource_limits (snd (run_calls cs (emit line s1))) =
            original_resource_limits (emit line s1)"
    proof (rule Cons.IH)
      fix call' line' s'
      assume "(call', line') \<in> set cs"
      then have "(call', line') \<in> set (c # cs)" by simp
      then show "original_resource_limits (snd (call' s')) = original_resource_limits s'"
        by (rule Cons.prems)
    qed
    then show ?thesis using c r None k by (simp add: limits_emit)
  next
    case (Some y)
    then show ?thesis using c r k by simp
  qed
qed

lemma saved_calls_keep:
  assumes "keeps_limits self" and "(call, line) \<in> set (saved_calls self p saved)"
  shows "original_resource_limits (snd (call s)) = original_resource_limits s"
  using assms
  by (auto simp: saved_calls_def restore_plan_def call_for_def keeps_limits_def
      split: option.splits if_splits)


lemma restore_resources_by_calls:
  assumes entry: "original_resource_limits s (proc_pid p) = Some saved" and ne: "saved \<noteq> []"
    and keeps: "keeps_limits self"
  shows "restore_resources self p s =
           (case run_calls (saved_calls self p saved) s of
              (Some x, s') \<Rightarrow>
                (Some x, emit (Log Error ''Error while restoring resources for process {process.name} (PID: {process.pid}): {e}'' [PInt (proc_pid p)]) s')
            | (None, s') \<Rightarrow>
                (None, emit (Log Info ''Restored all resources for process {process_name} (PID: {pid}).'' [PInt (proc_pid p)])
                         (s'\<lparr>original_resource_limits := (original_resource_limits s')(proc_pid p := None)\<rparr>)))"
proof -
  let ?pid = "proc_pid p"
  define c1 where "c1 = call_for ?pid saved (restore_plan self p ! 0)"
  define c2 where "c2 = call_for ?pid saved (restore_plan self p ! 1)"
  define c3 where "c3 = call_for ?pid saved (restore_plan self p ! 2)"
  define c4 where "c4 = call_for ?pid saved (restore_plan self p ! 3)"
  define c5 where "c5 = call_for ?pid saved (restore_plan self p ! 4)"
  define c6 where "c6 = call_for ?pid saved (restore_plan self p ! 5)"
  have sc: "saved_calls self p saved = ((((c1 @ c2) @ c3) @ c4) @ c5) @ c6"
    unfolding c1_def c2_def c3_def c4_def c5_def c6_def
    by (simp add: saved_calls_def restore_plan_def)
  define r where "r = run_calls (saved_calls self p saved) s"
  have chain: "r = and_then (and_then (and_then (and_then (and_then
                 (run_calls c1 s) (run_calls c2)) (run_calls c3)) (run_calls c4))
                 (run_calls c5)) (run_calls c6)"
    unfolding r_def sc by (simp only: run_calls_append)
  have u: "restore_resources self p s =
             (case and_then r (delete_limits ?pid) of
                (Some x, s') \<Rightarrow>
                  (Some x, emit (Log Error ''Error while restoring resources for process {process.name} (PID: {process.pid}): {e}'' [PInt ?pid]) s')
              | (None, s') \<Rightarrow> (None, s'))"
    unfolding chain c1_def c2_def c3_def c4_def c5_def c6_def using entry ne
    by (simp add: restore_resources_def Let_def restore_key_calls restore_plan_def)
  have k: "original_resource_limits (snd r) = original_resource_limits s"
    unfolding r_def
    by (rule run_calls_keeps) (rule saved_calls_keep [OF keeps])
  obtain x s6 where r6: "r = (x, s6)" by (cases r)
  with k have l6: "original_resource_limits s6 = original_resource_limits s" by simp
  show ?thesis
    unfolding u r_def [symmetric] r6 using l6 entry
    by (cases x) (simp_all add: and_then_def delete_limits_def)
qed

text \<open>
  Claim C1, amended. For a pid with a non-empty entry, and methods that do not touch
  \<open>original_resource_limits\<close>: \<^verbatim>\<open>restore_resources\<close> makes the calls of
  \<open>saved_calls\<close>, that is, it invokes the matching adapter with the saved value for each
  of its six keys whose saved value is present and truthy, in its order. When one of these
  calls raises, \<^verbatim>\<open>restore_resources\<close> raises the same exception and leaves the dictionary
  as it was; when none raises, it returns and has removed the pid's entry. The adapters of
  \<^verbatim>\<open>SharedResourceManager\<close> never raise, so with them it always returns and removes the
  entry, whatever happened to the external calls.
\<close>

theorem restore_resources_removes_entry:
  assumes "original_resource_limits s (proc_pid p) = Some saved" and "saved \<noteq> []"
    and "keeps_limits self"
  shows "restore_resources self p s =
           (case run_calls (saved_calls self p saved) s of
              (Some x, s') \<Rightarrow>
                (Some x, emit (Log Error ''Error while restoring resources for process {process.name} (PID: {process.pid}): {e}'' [PInt (proc_pid p)]) s')
            | (None, s') \<Rightarrow>
                (None, emit (Log Info ''Restored all resources for process {process_name} (PID: {pid}).'' [PInt (proc_pid p)])
                         (s'\<lparr>original_resource_limits := (original_resource_limits s')(proc_pid p := None)\<rparr>)))
       \<and> (\<forall>x. fst (run_calls (saved_calls self p saved) s) = Some x \<longrightarrow>
              fst (restore_resources self p s) = Some x \<and>
              original_resource_limits (snd (restore_resources self p s)) = original_resource_limits s)
       \<and> (fst (run_calls (saved_calls self p saved) s) = None \<longrightarrow>
              fst (restore_resources self p s) = None \<and>
              original_resource_limits (snd (restore_resources self p s)) =
                (original_resource_limits s)(proc_pid p := None))
       \<and> (case restore_resources self p s of
            (None, s') \<Rightarrow> original_resource_limits s' = (original_resource_limits s)(proc_pid p := None)
          | (Some x, s') \<Rightarrow> original_resource_limits s' = original_resource_limits s)
       \<and> fst (restore_resources (SharedResourceManager e) p s) = None
       \<and> (\<forall>key. adapter_invoked key
                   (new_events s (snd (restore_resources (SharedResourceManager e) p s))) =
                 (key \<in> set restorable_keys \<and> saved_truthy saved key))"
proof -
  note eq = restore_resources_by_calls [OF assms]
  have k: "original_resource_limits (snd (run_calls (saved_calls self p saved) s)) =
             original_resource_limits s"
    by (rule run_calls_keeps) (rule saved_calls_keep [OF assms(3)])
  obtain y s1 where r: "run_calls (saved_calls self p saved) s = (y, s1)"
    by (cases "run_calls (saved_calls self p saved) s")
  with k have k1: "original_resource_limits s1 = original_resource_limits s" by simp
  have raise: "\<forall>x. fst (run_calls (saved_calls self p saved) s) = Some x \<longrightarrow>
              fst (restore_resources self p s) = Some x \<and>
              original_resource_limits (snd (restore_resources self p s)) = original_resource_limits s"
    unfolding eq r using k1 by (cases y) (simp_all add: limits_emit)
  have ret: "fst (run_calls (saved_calls self p saved) s) = None \<longrightarrow>
              fst (restore_resources self p s) = None \<and>
              original_resource_limits (snd (restore_resources self p s)) =
                (original_resource_limits s)(proc_pid p := None)"
    unfolding eq r using k1 by (cases y) (simp_all add: limits_emit)
  from restore_resources_shared [OF assms(1,2), of e] obtain s' es where
    "restore_resources (SharedResourceManager e) p s = (None, s')"
    "trace s' = trace s @ es"
    "\<forall>k. adapter_invoked k es = (k \<in> set restorable_keys \<and> saved_truthy saved k)"
    by blast
  then have shared: "fst (restore_resources (SharedResourceManager e) p s) = None
       \<and> (\<forall>key. adapter_invoked key
                   (new_events s (snd (restore_resources (SharedResourceManager e) p s))) =
                 (key \<in> set restorable_keys \<and> saved_truthy saved key))"
    by (simp add: new_events_def)
  show ?thesis
    using eq raise ret restore_resources_entry [OF assms] shared by (intro conjI) blast+
qed


lemma keeps_limits_shared: "keeps_limits (SharedResourceManager e)"
  using acts_cpu_frequency acts_cpu_threads acts_ram_allocation acts_gpu_power_limit
    acts_disk_io_priority acts_network_bandwidth
  by (simp add: keeps_limits_def SharedResourceManager_def acts_for_def)

lemma throttled_entry:
  "original_resource_limits throttled_state (proc_pid restore_process) =
     Some [(''gpu_power_limit'', PInt 250), (''ionice_class'', PInt 0)]"
  by (simp add: throttled_state_def restore_process_def MiningProcess_def)

lemma keeps_limits_raising: "keeps_limits raising_manager"
  using keeps_limits_shared [of ok_env]
  by (simp add: keeps_limits_def raising_manager_def)

lemma raising_calls:
  "fst (run_calls (saved_calls raising_manager restore_process
          [(''gpu_power_limit'', PInt 250), (''ionice_class'', PInt 0)]) throttled_state) =
     Some NVMLError"
  by (simp add: saved_calls_def restore_plan_def call_for_def raising_manager_def
      SharedResourceManager_def)

lemma shared_calls:
  "map snd (saved_calls (SharedResourceManager ok_env) restore_process
              [(''gpu_power_limit'', PInt 250), (''ionice_class'', PInt 0)]) =
     [Log Info ''Restored GPU power limit to {gpu_power_limit}W for process {process_name} (PID: {pid}).''
        [PInt 250, PInt 2121]]"
  by (simp add: saved_calls_def restore_plan_def call_for_def restore_process_def MiningProcess_def)

theorem restore_resources_removes_entry_witness:
  "original_resource_limits throttled_state (proc_pid restore_process) =
     Some [(''gpu_power_limit'', PInt 250), (''ionice_class'', PInt 0)]
   \<and> keeps_limits (SharedResourceManager ok_env)
   \<and> map snd (saved_calls (SharedResourceManager ok_env) restore_process
              [(''gpu_power_limit'', PInt 250), (''ionice_class'', PInt 0)]) =
       [Log Info ''Restored GPU power limit to {gpu_power_limit}W for process {process_name} (PID: {pid}).''
          [PInt 250, PInt 2121]]
   \<and> fst (restore_resources (SharedResourceManager ok_env) restore_process throttled_state) = None
   \<and> original_resource_limits (snd (restore_resources (SharedResourceManager ok_env) restore_process throttled_state)) 2121 = None
   \<and> adapter_invoked ''gpu_power_limit''
        (new_events throttled_state (snd (restore_resources (SharedResourceManager ok_env) restore_process throttled_state)))
   \<and> keeps_limits raising_manager
   \<and> fst (run_calls (saved_calls raising_manager restore_process
          [(''gpu_power_limit'', PInt 250), (''ionice_class'', PInt 0)]) throttled_state) = Some NVMLError
   \<and> fst (restore_resources raising_manager restore_process throttled_state) = Some NVMLError
   \<and> original_resource_limits (snd (restore_resources raising_manager restore_process throttled_state)) 2121 =
       Some [(''gpu_power_limit'', PInt 250), (''ionice_class'', PInt 0)]"
proof -
  have ne: "[(''gpu_power_limit'', PInt 250), (''ionice_class'', PInt 0)] \<noteq> []" by simp
  have pid: "proc_pid restore_process = 2121" by (simp add: restore_process_def MiningProcess_def)
  have t: "original_resource_limits throttled_state 2121 =
     Some [(''gpu_power_limit'', PInt 250), (''ionice_class'', PInt 0)]"
    using throttled_entry by (simp add: pid)
  note ok = restore_resources_removes_entry [OF throttled_entry ne keeps_limits_shared, of ok_env ok_env]
  note bad = restore_resources_removes_entry [OF throttled_entry ne keeps_limits_raising, of ok_env]
  have a: "original_resource_limits (snd (restore_resources (SharedResourceManager ok_env) restore_process throttled_state)) 2121 = None"
    and a': "fst (restore_resources (SharedResourceManager ok_env) restore_process throttled_state) = None"
    and a'': "adapter_invoked ''gpu_power_limit''
        (new_events throttled_state (snd (restore_resources (SharedResourceManager ok_env) restore_process throttled_state)))"
    using ok by (auto simp: pid restorable_keys_def saved_truthy_def split: prod.splits option.splits)
  from bad have "\<forall>x. fst (run_calls (saved_calls raising_manager restore_process
          [(''gpu_power_limit'', PInt 250), (''ionice_class'', PInt 0)]) throttled_state) = Some x \<longrightarrow>
              fst (restore_resources raising_manager restore_process throttled_state) = Some x \<and>
              original_resource_limits (snd (restore_resources raising_manager restore_process throttled_state)) =
                original_resource_limits throttled_state"
    by blast
  with raising_calls have b: "fst (restore_resources raising_manager restore_process throttled_state) = Some NVMLError"
    and b': "original_resource_limits (snd (restore_resources raising_manager restore_process throttled_state)) =
                original_resource_limits throttled_state"
    by blast+
  show ?thesis
    using a a' a'' b b' t throttled_entry keeps_limits_shared keeps_limits_raising raising_calls shared_calls
    by simp
qed

text \<open>
  Claim C8. When the saved value of a key is falsy (\<open>0\<close>, \<open>0.0\<close> or \<^verbatim>\<open>None\<close>),
  \<^verbatim>\<open>restore_resources\<close> does not invoke the adapter of that key, returns normally, and has
  deleted the whole entry of the pid: the saved value is gone.
\<close>

theorem restore_resources_skips_falsy:
  assumes "original_resource_limits s (proc_pid p) = Some saved"
    and "map_of saved key = Some v" and "\<not> truthy v"
  shows "fst (restore_resources (SharedResourceManager e) p s) = None
       \<and> \<not> adapter_invoked key (new_events s (snd (restore_resources (SharedResourceManager e) p s)))
       \<and> original_resource_limits (snd (restore_resources (SharedResourceManager e) p s)) (proc_pid p) = None"
proof -
  from assms(2) have ne: "saved \<noteq> []" by auto
  from restore_resources_shared [OF assms(1) ne, of e] obtain s' es where
    "restore_resources (SharedResourceManager e) p s = (None, s')"
    "original_resource_limits s' = (original_resource_limits s)(proc_pid p := None)"
    "trace s' = trace s @ es"
    "\<forall>k. adapter_invoked k es = (k \<in> set restorable_keys \<and> saved_truthy saved k)"
    by blast
  then show ?thesis
    using assms(2,3) by (simp add: new_events_def saved_truthy_def)
qed

theorem restore_resources_skips_falsy_witness:
  "original_resource_limits throttled_state (proc_pid restore_process) =
     Some [(''gpu_power_limit'', PInt 250), (''ionice_class'', PInt 0)]
   \<and> map_of [(''gpu_power_limit'', PInt 250), (''ionice_class'', PInt 0)] ''ionice_class'' = Some (PInt 0)
   \<and> \<not> truthy (PInt 0)
   \<and> \<not> adapter_invoked ''ionice_class''
        (new_events throttled_state (snd (restore_resources (SharedResourceManager ok_env) restore_process throttled_state)))
   \<and> original_resource_limits (snd (restore_resources (SharedResourceManager ok_env) restore_process throttled_state)) (proc_pid restore_process) = None"
proof -
  have m: "map_of [(''gpu_power_limit'', PInt 250), (''ionice_class'', PInt 0)] ''ionice_class'' = Some (PInt 0)"
    by simp
  have f: "\<not> truthy (PInt 0)" by simp
  show ?thesis
    using restore_resources_skips_falsy [OF throttled_entry m f, of ok_env] throttled_entry m f
    by simp
qed

text \<open>
  Claim C1 as stated: here the device rejects the restored cap of 250 W, so the cap stays
  at 200 W, and the saved class \<open>0\<close> is never handed to \<^verbatim>\<open>ionice\<close>; yet
  \<^verbatim>\<open>restore_resources\<close> returns normally and the entry is gone.
\<close>

theorem restore_resources_counterexample:
  "original_resource_limits throttled_state 2121 =
     Some [(''gpu_power_limit'', PInt 250), (''ionice_class'', PInt 0)]
   \<and> fst (restore_resources (SharedResourceManager set_fails_env) restore_process throttled_state) = None
   \<and> gpu_power_limit_mw (snd (restore_resources (SharedResourceManager set_fails_env) restore_process throttled_state)) = 200000
   \<and> original_resource_limits (snd (restore_resources (SharedResourceManager set_fails_env) restore_process throttled_state)) 2121 = None
   \<and> external_calls (new_events throttled_state (snd (restore_resources (SharedResourceManager set_fails_env) restore_process throttled_state))) =
       [NvmlInit, NvmlDeviceGetHandleByIndex 0, NvmlDeviceSetPowerManagementLimit 0 (PInt 250000)]"
  by (simp add: restore_resources_def SharedResourceManager_def Let_def and_then_def restore_key_def
      delete_limits_def adjust_gpu_power_limit_def gpu_power_error_def emit_def
      throttled_state_def restore_process_def MiningProcess_def set_fails_env_def ok_env_def
      new_events_def external_calls_def)

section \<open>Saving the originals\<close>

lemma save_limit_overwrites:
  assumes "reader pid s = Inr v" and "original_resource_limits s pid = Some saved"
  shows "\<exists>s'. save_limit reader pid key s = Inr s' \<and>
              (\<exists>saved'. original_resource_limits s' pid = Some saved' \<and> map_of saved' key = Some v)"
  using assms by (simp add: save_limit_def update_Some_unfold)

text \<open>
  Claim C2 says that a saved original is never overwritten by a later cloak. On the code:
  the first cloak of a process whose device is capped at 250 W saves 250 and lowers the cap
  to 200 W; the second cloak reads 200 and stores it over the 250.
\<close>

theorem apply_cloak_strategy_overwrites_original:
  "original_resource_limits (cloak_gpu 200 idle_state) 1002 = Some [(''gpu_power_limit'', PInt 250)]
   \<and> gpu_power_limit_mw (cloak_gpu 200 idle_state) = 200000
   \<and> original_resource_limits (cloak_gpu 150 (cloak_gpu 200 idle_state)) 1002 =
       Some [(''gpu_power_limit'', PInt 200)]"
  by (simp add: cloak_gpu_def apply_cloak_strategy_def apply_cloak_strategy_try_def
      gpu_power_strategy_def device_readers_def execute_power_limit_def save_limit_def
      adjust_gpu_power_limit_def emit_def Let_def idle_state_def gpu_miner_def MiningProcess_def
      ok_env_def)

section \<open>The singleton\<close>








end
